theory Spec2Isabelle
  imports Main
begin

section \<open>Data model of the Cluster reconciler\<close>

text \<open>
  The embedding follows \<^verbatim>\<open>controllers/cluster_controller_phases.go\<close>. A Go pointer
  that may be nil is an \<open>option\<close>; a Go map is a partial function; the in-memory
  \<^verbatim>\<open>*clusterv1.Cluster\<close> that every sub-reconciler mutates is passed in and returned.
\<close>

subsection \<open>Time stamps, references, end points\<close>

text \<open>
  A \<^verbatim>\<open>metav1.Time\<close> is an instant, counted here from Go's zero instant, so the zero
  value of the struct is \<open>0\<close>. \<^verbatim>\<open>(*Time).IsZero\<close> answers true on a nil pointer and
  on the zero instant.
\<close>

type_synonym Time = nat

definition Time_IsZero :: "Time option \<Rightarrow> bool" where
  "Time_IsZero t = (case t of None \<Rightarrow> True | Some v \<Rightarrow> v = 0)"

record ObjectReference =
  ref_APIVersion :: string
  ref_Kind :: string
  ref_Name :: string

record APIEndpoint =
  Host :: string
  Port :: int

text \<open>
  Modelled from the spec: \<^verbatim>\<open>APIEndpoint.IsValid\<close> is declared in the API package, which
  is not among the sources; the spec gives it as "valid iff host non-empty and port
  non-zero".
\<close>

definition APIEndpoint_IsValid :: "APIEndpoint \<Rightarrow> bool" where
  "APIEndpoint_IsValid e = (Host e \<noteq> [] \<and> Port e \<noteq> 0)"

subsection \<open>Conditions\<close>

datatype ConditionStatus = ConditionTrue | ConditionFalse | ConditionUnknown

record Condition =
  cond_Status :: ConditionStatus
  cond_Severity :: string
  cond_Reason :: string
  cond_Message :: string

text \<open>
  The condition slice holds at most one entry per type: it is a map from the type to
  the entry. The order of the slice and \<^verbatim>\<open>lastTransitionTime\<close> are not modelled.
\<close>

type_synonym Conditions = "string \<rightharpoonup> Condition"

subsection \<open>The Cluster object\<close>

record Cluster =
  Name :: string
  Namespace :: string
  UID :: string
  Annotations :: "string \<rightharpoonup> string"
  DeletionTimestamp :: "Time option"
  Spec_InfrastructureRef :: "ObjectReference option"
  Spec_ControlPlaneRef :: "ObjectReference option"
  Spec_ManagedExternalEtcdRef :: "ObjectReference option"
  Spec_ControlPlaneEndpoint :: APIEndpoint
  Status_Phase :: string
  Status_InfrastructureReady :: bool
  Status_ControlPlaneReady :: bool
  Status_ManagedExternalEtcdReady :: bool
  Status_ManagedExternalEtcdInitialized :: bool
  Status_FailureReason :: "string option"
  Status_FailureMessage :: "string option"
  Status_FailureDomains :: "string \<rightharpoonup> (bool \<times> (string \<times> string) list)"
  Status_Conditions :: Conditions

subsection \<open>Phase vocabulary\<close>

text \<open>
  The \<^verbatim>\<open>ClusterPhase\<close> constants and \<^verbatim>\<open>SetTypedPhase\<close> are declared in the API
  package, which is not among the sources; the spec lists the strings persisted into
  \<^verbatim>\<open>status.phase\<close>: "Pending, Provisioning, Provisioned, Failed, Deleting, plus the
  empty string for freshly created objects".
\<close>

text \<open>Modelled from the spec: the phase string \<^verbatim>\<open>Pending\<close>.\<close>

definition ClusterPhasePending :: string where
  "ClusterPhasePending = ''Pending''"

text \<open>Modelled from the spec: the phase string \<^verbatim>\<open>Provisioning\<close>.\<close>

definition ClusterPhaseProvisioning :: string where
  "ClusterPhaseProvisioning = ''Provisioning''"

text \<open>Modelled from the spec: the phase string \<^verbatim>\<open>Provisioned\<close>.\<close>

definition ClusterPhaseProvisioned :: string where
  "ClusterPhaseProvisioned = ''Provisioned''"

text \<open>Modelled from the spec: the phase string \<^verbatim>\<open>Failed\<close>.\<close>

definition ClusterPhaseFailed :: string where
  "ClusterPhaseFailed = ''Failed''"

text \<open>Modelled from the spec: the phase string \<^verbatim>\<open>Deleting\<close>.\<close>

definition ClusterPhaseDeleting :: string where
  "ClusterPhaseDeleting = ''Deleting''"

text \<open>
  Modelled from the spec: \<^verbatim>\<open>SetTypedPhase\<close> is not among the sources; a clause of
  the labeler "sets the phase", the string being persisted into \<^verbatim>\<open>status.phase\<close>.
\<close>

definition SetTypedPhase :: "string \<Rightarrow> Cluster \<Rightarrow> Cluster" where
  "SetTypedPhase p c = c\<lparr>Status_Phase := p\<rparr>"

section \<open>The phase labeler\<close>

text \<open>
  \<^verbatim>\<open>reconcilePhase\<close>: five \<^verbatim>\<open>if\<close> statements in sequence, each one assigning the
  phase when its condition holds. The five steps are named after the phase they assign
  and composed in the order of the source.
\<close>

definition phase_clause_Pending :: "Cluster \<Rightarrow> Cluster" where
  "phase_clause_Pending c =
     (if Status_Phase c = [] then SetTypedPhase ClusterPhasePending c else c)"

definition phase_clause_Provisioning :: "Cluster \<Rightarrow> Cluster" where
  "phase_clause_Provisioning c =
     (if Spec_InfrastructureRef c \<noteq> None then SetTypedPhase ClusterPhaseProvisioning c else c)"

definition phase_clause_Provisioned :: "Cluster \<Rightarrow> Cluster" where
  "phase_clause_Provisioned c =
     (if Status_InfrastructureReady c \<and> APIEndpoint_IsValid (Spec_ControlPlaneEndpoint c)
      then SetTypedPhase ClusterPhaseProvisioned c else c)"

definition phase_clause_Failed :: "Cluster \<Rightarrow> Cluster" where
  "phase_clause_Failed c =
     (if Status_FailureReason c \<noteq> None \<or> Status_FailureMessage c \<noteq> None
      then SetTypedPhase ClusterPhaseFailed c else c)"

definition phase_clause_Deleting :: "Cluster \<Rightarrow> Cluster" where
  "phase_clause_Deleting c =
     (if \<not> Time_IsZero (DeletionTimestamp c) then SetTypedPhase ClusterPhaseDeleting c else c)"

definition reconcilePhase :: "Cluster \<Rightarrow> Cluster" where
  "reconcilePhase c =
     phase_clause_Deleting
       (phase_clause_Failed
         (phase_clause_Provisioned
           (phase_clause_Provisioning
             (phase_clause_Pending c))))"

text \<open>Sample clusters used to evaluate the labeler.\<close>

definition empty_cluster :: Cluster where
  "empty_cluster =
     \<lparr>Name = ''c1'', Namespace = ''default'', UID = ''uid-c1'',
      Annotations = Map.empty, DeletionTimestamp = None,
      Spec_InfrastructureRef = None, Spec_ControlPlaneRef = None,
      Spec_ManagedExternalEtcdRef = None,
      Spec_ControlPlaneEndpoint = \<lparr>Host = [], Port = 0\<rparr>,
      Status_Phase = [],
      Status_InfrastructureReady = False, Status_ControlPlaneReady = False,
      Status_ManagedExternalEtcdReady = False,
      Status_ManagedExternalEtcdInitialized = False,
      Status_FailureReason = None, Status_FailureMessage = None,
      Status_FailureDomains = Map.empty, Status_Conditions = Map.empty\<rparr>"

definition stale_failed_cluster :: Cluster where
  "stale_failed_cluster = empty_cluster\<lparr>Status_Phase := ''Failed''\<rparr>"

definition failed_deleted_cluster :: Cluster where
  "failed_deleted_cluster =
     empty_cluster\<lparr>DeletionTimestamp := Some 1700000000,
                   Status_FailureReason := Some ''InvalidImage'',
                   Status_FailureMessage := Some ''not found''\<rparr>"

section \<open>The API server and the referenced objects\<close>

subsection \<open>Errors\<close>

text \<open>
  Every Go \<^verbatim>\<open>error\<close> the reconciler can see is a value of \<open>err\<close>.
  \<open>ErrNotFound\<close> is the error \<^verbatim>\<open>apierrors.IsNotFound\<close> recognises;
  \<open>ErrNilReference\<close> is what the use of a nil \<^verbatim>\<open>*corev1.ObjectReference\<close>
  ends in (a rejected call or a nil dereference); \<open>ErrFieldNotFound\<close> is
  \<^verbatim>\<open>util.ErrUnstructuredFieldNotFound\<close>;
  \<open>ErrDependentCertificateNotFound\<close> is the error of that name of the kubeconfig
  package.
\<close>

datatype err =
    ErrNotFound
  | ErrNilReference
  | ErrAlreadyOwned
  | ErrFieldNotFound
  | ErrMalformedField string
  | ErrDependentCertificateNotFound
  | ErrParse string
  | ErrAPI string

subsection \<open>Unstructured objects\<close>

text \<open>
  A referenced object is a free-form tree of which the reconciler reads a fixed set of
  paths. Each such path is a field that is absent, present with a value of the expected
  type, or present with a value of another type (for which the \<^verbatim>\<open>Nested*\<close>
  accessors return an error).
\<close>

datatype 'a field = Absent | Present 'a | Malformed

record OwnerReference =
  own_APIVersion :: string
  own_Kind :: string
  own_Name :: string
  own_UID :: string
  own_Controller :: bool

record Unstructured =
  obj_APIVersion :: string
  obj_Kind :: string
  obj_Namespace :: string
  obj_Name :: string
  obj_Labels :: "string \<rightharpoonup> string"
  obj_Annotations :: "string \<rightharpoonup> string"
  obj_OwnerReferences :: "OwnerReference list"
  obj_DeletionTimestamp :: "Time option"
  obj_status_ready :: "bool field"
  obj_status_initialized :: "bool field"
  obj_status_failureReason :: "string field"
  obj_status_failureMessage :: "string field"
  obj_status_failureDomains :: "(string \<rightharpoonup> (bool \<times> (string \<times> string) list)) field"
  obj_spec_controlPlaneEndpoint :: "APIEndpoint field"
  obj_ReadyCondition :: "Condition option"

type_synonym ObjectKey = "string \<times> string \<times> string \<times> string"

definition key_of :: "Unstructured \<Rightarrow> ObjectKey" where
  "key_of obj = (obj_APIVersion obj, obj_Kind obj, obj_Namespace obj, obj_Name obj)"

definition ref_key :: "ObjectReference \<Rightarrow> string \<Rightarrow> ObjectKey" where
  "ref_key ref ns = (ref_APIVersion ref, ref_Kind ref, ns, ref_Name ref)"

subsection \<open>The API server as a state\<close>

text \<open>
  The reconciler talks to the API server through a client. The state \<open>World\<close> holds
  the stored objects, the kinds being watched, the secrets (each a namespace and a
  name), the answers of the conversion collaborator, the calls that fail (\<open>faults\<close>:
  any call can be made to fail with any error) and the log of the calls made so far.
\<close>

datatype Op =
    OpGet ObjectKey
  | OpNewHelper ObjectKey
  | OpPatch ObjectKey
  | OpUpdate ObjectKey
  | OpWatch string string
  | OpSecretGet string string
  | OpSecretCreate string string

datatype Call =
    CallGet "ObjectReference option" string
  | CallPatch ObjectKey
  | CallUpdate ObjectKey
  | CallWatch string string

record World =
  objects :: "ObjectKey \<rightharpoonup> Unstructured"
  apiContract :: "ObjectReference \<Rightarrow> err + string"
  faults :: "Op \<rightharpoonup> err"
  watched :: "(string \<times> string) list"
  secrets :: "(string \<times> string) list"
  calls :: "Call list"

definition log_call :: "Call \<Rightarrow> World \<Rightarrow> World" where
  "log_call x w = w\<lparr>calls := calls w @ [x]\<rparr>"

text \<open>
  Modelled from the spec: \<^verbatim>\<open>utilconversion.UpdateReferenceAPIContract\<close> is not among
  the sources. The spec: "Ask the conversion collaborator to rewrite the reference's
  apiVersion to the preferred served version of its group/kind. Fail the whole reconcile
  on error." The reference is rewritten in place, so the caller's field changes.
\<close>

definition UpdateReferenceAPIContract :: "World \<Rightarrow> ObjectReference \<Rightarrow> err + ObjectReference" where
  "UpdateReferenceAPIContract w ref =
     (case apiContract w ref of
        Inl e \<Rightarrow> Inl e
      | Inr v \<Rightarrow> Inr (ref\<lparr>ref_APIVersion := v\<rparr>))"

text \<open>
  Modelled from the spec: \<^verbatim>\<open>external.Get\<close> is not among the sources. The spec: "Fetch
  the referenced object by (group, version, kind, namespace = cluster.namespace, name)",
  with a not-found answer when the object is absent. The call takes the reference as
  a pointer; a nil pointer names no object and the call ends in \<open>ErrNilReference\<close>.
\<close>

definition external_Get ::
  "World \<Rightarrow> ObjectReference option \<Rightarrow> string \<Rightarrow> World \<times> (err + Unstructured)" where
  "external_Get w ref ns =
     (let w' = log_call (CallGet ref ns) w in
      case ref of
        None \<Rightarrow> (w', Inl ErrNilReference)
      | Some r \<Rightarrow>
          (case faults w (OpGet (ref_key r ns)) of
             Some e \<Rightarrow> (w', Inl e)
           | None \<Rightarrow>
               (case objects w (ref_key r ns) of
                  None \<Rightarrow> (w', Inl ErrNotFound)
                | Some obj \<Rightarrow> (w', Inr obj))))"

text \<open>
  \<^verbatim>\<open>Client.Update\<close> replaces the stored object by the one sent (a full update).
\<close>

definition Client_Update :: "World \<Rightarrow> Unstructured \<Rightarrow> World \<times> err option" where
  "Client_Update w obj =
     (let w' = log_call (CallUpdate (key_of obj)) w in
      case faults w (OpUpdate (key_of obj)) of
        Some e \<Rightarrow> (w', Some e)
      | None \<Rightarrow> (w'\<lparr>objects := (objects w')(key_of obj \<mapsto> obj)\<rparr>, None))"

text \<open>
  Modelled from the spec: the patch helper (\<^verbatim>\<open>util/patch\<close>) is not among the sources.
  Creating the helper takes the snapshot "of the object as fetched" and can fail.
\<close>

definition patch_NewHelper :: "World \<Rightarrow> Unstructured \<Rightarrow> err option" where
  "patch_NewHelper w obj = faults w (OpNewHelper (key_of obj))"

text \<open>
  Modelled from the spec: the patch helper is not among the sources. The spec: "Send
  a two-way merge patch of the mutated object back to the API server, computed against
  the object as fetched". Nothing else writes the object between the fetch and the
  patch, so the stored object becomes the mutated one.
\<close>

definition patchHelper_Patch :: "World \<Rightarrow> Unstructured \<Rightarrow> World \<times> err option" where
  "patchHelper_Patch w obj =
     (let w' = log_call (CallPatch (key_of obj)) w in
      case faults w (OpPatch (key_of obj)) of
        Some e \<Rightarrow> (w', Some e)
      | None \<Rightarrow> (w'\<lparr>objects := (objects w')(key_of obj \<mapsto> obj)\<rparr>, None))"

text \<open>
  Modelled from the spec: the watch collaborator is not among the sources. The spec:
  "deliver future changes of this object-kind back into the reconciler's work-queue
  ... Idempotent across kinds."
\<close>

definition externalTracker_Watch :: "World \<Rightarrow> Unstructured \<Rightarrow> World \<times> err option" where
  "externalTracker_Watch w obj =
     (let gk = (obj_APIVersion obj, obj_Kind obj);
          w' = log_call (CallWatch (fst gk) (snd gk)) w in
      if gk \<in> set (watched w) then (w', None)
      else case faults w (OpWatch (fst gk) (snd gk)) of
        Some e \<Rightarrow> (w', Some e)
      | None \<Rightarrow> (w'\<lparr>watched := watched w' @ [gk]\<rparr>, None))"

subsection \<open>Group, version, kind\<close>

text \<open>
  \<^verbatim>\<open>schema.ParseGroupVersion\<close> of the API machinery: the empty string and \<^verbatim>\<open>"/"\<close>
  give the empty group and version; a string without a slash is a version of the empty
  group; one slash separates group and version; more slashes are an error.
\<close>

definition ParseGroupVersion :: "string \<Rightarrow> err + (string \<times> string)" where
  "ParseGroupVersion gv =
     (if gv = [] \<or> gv = ''/'' then Inr ([], [])
      else if count_list gv (CHR ''/'') = 0 then Inr ([], gv)
      else if count_list gv (CHR ''/'') = 1
        then Inr (takeWhile (\<lambda>ch. ch \<noteq> CHR ''/'') gv,
                  tl (dropWhile (\<lambda>ch. ch \<noteq> CHR ''/'') gv))
      else Inl (ErrParse gv))"

text \<open>\<^verbatim>\<open>GroupVersionKind.String\<close>: group, a slash, version, \<^verbatim>\<open>", Kind="\<close>, kind.\<close>

definition GroupVersionKind_String :: "string \<times> string \<times> string \<Rightarrow> string" where
  "GroupVersionKind_String gvk =
     (case gvk of (g, v, k) \<Rightarrow> g @ ''/'' @ v @ '', Kind='' @ k)"

text \<open>
  \<^verbatim>\<open>(*Unstructured).GroupVersionKind\<close>: the parsed \<^verbatim>\<open>apiVersion\<close> with the kind, and
  the empty triple when the \<^verbatim>\<open>apiVersion\<close> does not parse.
\<close>

definition obj_GroupVersionKind :: "Unstructured \<Rightarrow> string \<times> string \<times> string" where
  "obj_GroupVersionKind obj =
     (case ParseGroupVersion (obj_APIVersion obj) of
        Inl e \<Rightarrow> ([], [], [])
      | Inr (g, v) \<Rightarrow> (g, v, obj_Kind obj))"

text \<open>
  The verb \<^verbatim>\<open>%q\<close> of \<^verbatim>\<open>fmt.Sprintf\<close> on a string: the string in double quotes, a
  double quote and a backslash inside it escaped by a backslash. (Object names are DNS
  names; the escapes of control and non-ASCII characters are not modelled.)
\<close>

definition quote_char :: "char \<Rightarrow> string" where
  "quote_char ch =
     (if ch = CHR 0x22 \<or> ch = CHR 0x5C then [CHR 0x5C, ch] else [ch])"

definition go_quote :: "string \<Rightarrow> string" where
  "go_quote s = [CHR 0x22] @ concat (map quote_char s) @ [CHR 0x22]"

subsection \<open>Annotations, labels, owner references\<close>

text \<open>
  Modelled from the spec: the annotation name is declared in the API package, which is
  not among the sources; the spec gives it as \<^verbatim>\<open>cluster.x-k8s.io/paused\<close>.
\<close>

definition PausedAnnotation :: string where
  "PausedAnnotation = ''cluster.x-k8s.io/paused''"

text \<open>
  Modelled from the spec: the label name is declared in the API package, which is not
  among the sources; the spec gives it as \<^verbatim>\<open>cluster.x-k8s.io/cluster-name\<close>.
\<close>

definition ClusterLabelName :: string where
  "ClusterLabelName = ''cluster.x-k8s.io/cluster-name''"

text \<open>
  Modelled from the spec: the package \<^verbatim>\<open>util/annotations\<close> is not among the sources.
  The spec: an object is paused when it "carries the paused annotation".
\<close>

definition annotations_HasPausedAnnotation :: "Unstructured \<Rightarrow> bool" where
  "annotations_HasPausedAnnotation obj = (obj_Annotations obj PausedAnnotation \<noteq> None)"

text \<open>
  Modelled from the spec: the package \<^verbatim>\<open>util/annotations\<close> is not among the sources.
  The spec: "If the fetched object or the Cluster itself carries the
  cluster.x-k8s.io/paused annotation".
\<close>

definition annotations_IsPaused :: "Cluster \<Rightarrow> Unstructured \<Rightarrow> bool" where
  "annotations_IsPaused cluster obj =
     (Annotations cluster PausedAnnotation \<noteq> None \<or> annotations_HasPausedAnnotation obj)"

text \<open>
  \<^verbatim>\<open>controllerutil.SetControllerReference\<close> of the controller runtime: the owner
  reference of the Cluster, marked as controller. It fails when a namespaced owner is
  given an object of another namespace and when the object already has another
  controller; otherwise the reference replaces the entry for the same owner or is
  appended.
\<close>

definition cluster_OwnerReference :: "Cluster \<Rightarrow> OwnerReference" where
  "cluster_OwnerReference cluster =
     \<lparr>own_APIVersion = ''cluster.x-k8s.io/v1beta1'', own_Kind = ''Cluster'',
      own_Name = Name cluster, own_UID = UID cluster, own_Controller = True\<rparr>"

definition referSameObject :: "OwnerReference \<Rightarrow> OwnerReference \<Rightarrow> bool" where
  "referSameObject a b =
     (case (ParseGroupVersion (own_APIVersion a), ParseGroupVersion (own_APIVersion b)) of
        (Inr (ga, va), Inr (gb, vb)) \<Rightarrow>
          ga = gb \<and> own_Kind a = own_Kind b \<and> own_Name a = own_Name b
      | _ \<Rightarrow> False)"

fun upsertOwnerRef :: "OwnerReference \<Rightarrow> OwnerReference list \<Rightarrow> OwnerReference list" where
  "upsertOwnerRef r [] = [r]"
| "upsertOwnerRef r (x # xs) =
     (if referSameObject x r then r # xs else x # upsertOwnerRef r xs)"

definition SetControllerReference :: "Cluster \<Rightarrow> Unstructured \<Rightarrow> err + Unstructured" where
  "SetControllerReference cluster obj =
     (if Namespace cluster \<noteq> []
         \<and> (obj_Namespace obj = [] \<or> obj_Namespace obj \<noteq> Namespace cluster)
      then Inl (ErrAPI ''cross-namespace owner reference'')
      else case find own_Controller (obj_OwnerReferences obj) of
        Some existing \<Rightarrow>
          if \<not> referSameObject existing (cluster_OwnerReference cluster)
          then Inl ErrAlreadyOwned
          else Inr (obj\<lparr>obj_OwnerReferences :=
                      upsertOwnerRef (cluster_OwnerReference cluster) (obj_OwnerReferences obj)\<rparr>)
      | None \<Rightarrow>
          Inr (obj\<lparr>obj_OwnerReferences :=
                 upsertOwnerRef (cluster_OwnerReference cluster) (obj_OwnerReferences obj)\<rparr>))"

subsection \<open>The fields read from a referenced object\<close>

text \<open>
  The package \<^verbatim>\<open>controllers/external\<close> is not among the sources. The spec: the core
  reads \<^verbatim>\<open>status.ready\<close> (bool), \<^verbatim>\<open>status.initialized\<close> (bool),
  \<^verbatim>\<open>status.failureReason\<close> (string) and \<^verbatim>\<open>status.failureMessage\<close> (string) by
  path; "missing path is not an error for optional fields" and reads as the zero value.
\<close>

text \<open>Modelled from the spec: \<^verbatim>\<open>external.IsReady\<close> reads \<^verbatim>\<open>status.ready\<close>.\<close>

definition external_IsReady :: "Unstructured \<Rightarrow> err + bool" where
  "external_IsReady obj =
     (case obj_status_ready obj of
        Malformed \<Rightarrow> Inl (ErrMalformedField ''status.ready'')
      | Absent \<Rightarrow> Inr False
      | Present b \<Rightarrow> Inr b)"

text \<open>
  Modelled from the spec: \<^verbatim>\<open>external.IsInitialized\<close> reads \<^verbatim>\<open>status.initialized\<close>.
\<close>

definition external_IsInitialized :: "Unstructured \<Rightarrow> err + bool" where
  "external_IsInitialized obj =
     (case obj_status_initialized obj of
        Malformed \<Rightarrow> Inl (ErrMalformedField ''status.initialized'')
      | Absent \<Rightarrow> Inr False
      | Present b \<Rightarrow> Inr b)"

text \<open>
  \<^verbatim>\<open>unstructured.NestedString\<close> of the API machinery: the string at the path, the
  empty string when the path is missing, an error when the value is not a string.
\<close>

definition NestedString :: "string field \<Rightarrow> string \<Rightarrow> err + string" where
  "NestedString f path =
     (case f of
        Malformed \<Rightarrow> Inl (ErrMalformedField path)
      | Absent \<Rightarrow> Inr []
      | Present s \<Rightarrow> Inr s)"

text \<open>
  Modelled from the spec: \<^verbatim>\<open>external.FailuresFrom\<close> reads \<^verbatim>\<open>status.failureReason\<close>
  and \<^verbatim>\<open>status.failureMessage\<close>.
\<close>

definition external_FailuresFrom :: "Unstructured \<Rightarrow> err + (string \<times> string)" where
  "external_FailuresFrom obj =
     (case NestedString (obj_status_failureReason obj) ''status.failureReason'' of
        Inl e \<Rightarrow> Inl e
      | Inr failureReason \<Rightarrow>
          (case NestedString (obj_status_failureMessage obj) ''status.failureMessage'' of
             Inl e \<Rightarrow> Inl e
           | Inr failureMessage \<Rightarrow> Inr (failureReason, failureMessage)))"

text \<open>
  Modelled from the spec: \<^verbatim>\<open>util.UnstructuredUnmarshalField\<close> is not among the
  sources. The spec: "Field extraction by dotted path"; it gives the value at the path,
  the error \<^verbatim>\<open>ErrUnstructuredFieldNotFound\<close> (which the source names) when the path is
  missing, and another error when the value does not parse.
\<close>

definition UnstructuredUnmarshalField :: "'a field \<Rightarrow> string \<Rightarrow> err + 'a" where
  "UnstructuredUnmarshalField f path =
     (case f of
        Absent \<Rightarrow> Inl ErrFieldNotFound
      | Malformed \<Rightarrow> Inl (ErrMalformedField path)
      | Present v \<Rightarrow> Inr v)"

subsection \<open>Condition helpers\<close>

text \<open>
  The condition types and reasons, with the strings that the constants file printed
  with the source declares for them. The two names of the control-plane latch and the
  severity are not in that file.
\<close>

definition InfrastructureReadyCondition :: string where
  "InfrastructureReadyCondition = ''InfrastructureReady''"

definition WaitingForInfrastructureFallbackReason :: string where
  "WaitingForInfrastructureFallbackReason = ''WaitingForInfrastructure''"

definition ControlPlaneReadyCondition :: string where
  "ControlPlaneReadyCondition = ''ControlPlaneReady''"

definition WaitingForControlPlaneFallbackReason :: string where
  "WaitingForControlPlaneFallbackReason = ''WaitingForControlPlane''"

text \<open>
  Modelled from the spec: the constant is not among the sources; the spec lists the
  condition type \<^verbatim>\<open>ControlPlaneInitialized\<close>.
\<close>

definition ControlPlaneInitializedCondition :: string where
  "ControlPlaneInitializedCondition = ''ControlPlaneInitialized''"

text \<open>
  Modelled from the spec: the constant is not among the sources; the spec lists the
  reason \<^verbatim>\<open>WaitingForControlPlaneProviderInitialized\<close>.
\<close>

definition WaitingForControlPlaneProviderInitializedReason :: string where
  "WaitingForControlPlaneProviderInitializedReason = ''WaitingForControlPlaneProviderInitialized''"

definition ManagedExternalEtcdClusterInitializedCondition :: string where
  "ManagedExternalEtcdClusterInitializedCondition = ''ManagedEtcdInitialized''"

definition ManagedExternalEtcdClusterReadyCondition :: string where
  "ManagedExternalEtcdClusterReadyCondition = ''ManagedEtcdReady''"

definition WaitingForEtcdClusterInitializedReason :: string where
  "WaitingForEtcdClusterInitializedReason = ''WaitingForEtcdClusterProviderInitialized''"

text \<open>
  Modelled from the spec: the constant is not among the sources; the spec lists the
  severities \<^verbatim>\<open>Info\<close>, \<^verbatim>\<open>Warning\<close>, \<^verbatim>\<open>Error\<close>.
\<close>

definition ConditionSeverityInfo :: string where
  "ConditionSeverityInfo = ''Info''"

text \<open>
  The package \<^verbatim>\<open>util/conditions\<close> is not among the sources. The spec: conditions
  are keyed by type; a mirror copies "the Ready condition of the subordinate if
  present, else synthesize a fallback (status = ready, reason ..., severity Info)"; a
  latch is marked "True iff so, else False with reason ...".
\<close>

text \<open>Modelled from the spec: the condition with status True.\<close>

definition TrueCondition :: Condition where
  "TrueCondition =
     \<lparr>cond_Status = ConditionTrue, cond_Severity = [], cond_Reason = [], cond_Message = []\<rparr>"

text \<open>Modelled from the spec: the condition with status False and a reason.\<close>

definition FalseCondition :: "string \<Rightarrow> string \<Rightarrow> string \<Rightarrow> Condition" where
  "FalseCondition reason severity message =
     \<lparr>cond_Status = ConditionFalse, cond_Severity = severity, cond_Reason = reason,
      cond_Message = message\<rparr>"

text \<open>
  Modelled from the spec: \<^verbatim>\<open>conditions.Set\<close>; the set has "at most one entry per
  type", so setting a condition replaces the entry of its type.
\<close>

definition conditions_Set :: "Cluster \<Rightarrow> string \<Rightarrow> Condition \<Rightarrow> Cluster" where
  "conditions_Set cluster t cd =
     cluster\<lparr>Status_Conditions := (Status_Conditions cluster)(t \<mapsto> cd)\<rparr>"

text \<open>
  Modelled from the spec: \<^verbatim>\<open>conditions.IsTrue\<close>; the condition of the type is
  present with status True.
\<close>

definition conditions_IsTrue :: "Cluster \<Rightarrow> string \<Rightarrow> bool" where
  "conditions_IsTrue cluster t =
     (case Status_Conditions cluster t of
        None \<Rightarrow> False
      | Some cd \<Rightarrow> cond_Status cd = ConditionTrue)"

text \<open>Modelled from the spec: \<^verbatim>\<open>conditions.MarkTrue\<close>; "mark True".\<close>

definition conditions_MarkTrue :: "Cluster \<Rightarrow> string \<Rightarrow> Cluster" where
  "conditions_MarkTrue cluster t = conditions_Set cluster t TrueCondition"

text \<open>
  Modelled from the spec: \<^verbatim>\<open>conditions.MarkFalse\<close>; "False with reason ...".
\<close>

definition conditions_MarkFalse ::
  "Cluster \<Rightarrow> string \<Rightarrow> string \<Rightarrow> string \<Rightarrow> string \<Rightarrow> Cluster" where
  "conditions_MarkFalse cluster t reason severity message =
     conditions_Set cluster t (FalseCondition reason severity message)"

text \<open>
  Modelled from the spec: \<^verbatim>\<open>conditions.SetMirror\<close> with the getter of the subordinate
  and the fallback value; "copy the Ready condition of the subordinate if present, else
  synthesize a fallback".
\<close>

definition conditions_SetMirror ::
  "Cluster \<Rightarrow> string \<Rightarrow> Unstructured \<Rightarrow> bool \<Rightarrow> string \<Rightarrow> string \<Rightarrow> string \<Rightarrow> Cluster" where
  "conditions_SetMirror cluster t from fallbackTo reason severity message =
     (case obj_ReadyCondition from of
        Some cd \<Rightarrow> conditions_Set cluster t cd
      | None \<Rightarrow>
          conditions_Set cluster t
            (if fallbackTo then TrueCondition else FalseCondition reason severity message))"

section \<open>The external reconciler\<close>

type_synonym Duration = int

definition Second :: Duration where
  "Second = 1000000000"

record ReconcileOutput =
  out_RequeueAfter :: Duration
  out_Paused :: bool
  out_Result :: "Unstructured option"

definition ReconcileOutput_zero :: ReconcileOutput where
  "ReconcileOutput_zero = \<lparr>out_RequeueAfter = 0, out_Paused = False, out_Result = None\<rparr>"

text \<open>
  The reference handed to \<^verbatim>\<open>reconcileExternal\<close> is a pointer into the Cluster's spec:
  \<open>RefField\<close> says which of the three fields it points to, so that the rewrite of the
  reference by the conversion step lands in the Cluster, as it does in the source.
\<close>

datatype RefField = InfrastructureRefField | ControlPlaneRefField | ManagedExternalEtcdRefField

fun ref_of :: "Cluster \<Rightarrow> RefField \<Rightarrow> ObjectReference option" where
  "ref_of cluster InfrastructureRefField = Spec_InfrastructureRef cluster"
| "ref_of cluster ControlPlaneRefField = Spec_ControlPlaneRef cluster"
| "ref_of cluster ManagedExternalEtcdRefField = Spec_ManagedExternalEtcdRef cluster"

fun set_ref :: "Cluster \<Rightarrow> RefField \<Rightarrow> ObjectReference \<Rightarrow> Cluster" where
  "set_ref cluster InfrastructureRefField r = cluster\<lparr>Spec_InfrastructureRef := Some r\<rparr>"
| "set_ref cluster ControlPlaneRefField r = cluster\<lparr>Spec_ControlPlaneRef := Some r\<rparr>"
| "set_ref cluster ManagedExternalEtcdRefField r = cluster\<lparr>Spec_ManagedExternalEtcdRef := Some r\<rparr>"

text \<open>The message written by \<^verbatim>\<open>fmt.Sprintf\<close> at the end of \<^verbatim>\<open>reconcileExternal\<close>.\<close>

definition failure_citation :: "Unstructured \<Rightarrow> string" where
  "failure_citation obj =
     ''Failure detected from referenced resource ''
       @ GroupVersionKind_String (obj_GroupVersionKind obj)
       @ '' with name '' @ go_quote (obj_Name obj) @ '': ''"

text \<open>
  Lines 119 to 133 of the source, the end of \<^verbatim>\<open>reconcileExternal\<close>: the failure
  reason and message of the object are read and, when not empty, written to the
  Cluster's status.
\<close>

definition surface_failures :: "Cluster \<Rightarrow> Unstructured \<Rightarrow> err + Cluster" where
  "surface_failures cluster obj =
     (case external_FailuresFrom obj of
        Inl e \<Rightarrow> Inl e
      | Inr (failureReason, failureMessage) \<Rightarrow>
          (let cluster2 =
                 (if failureReason \<noteq> []
                  then cluster\<lparr>Status_FailureReason := Some failureReason\<rparr> else cluster);
               cluster3 =
                 (if failureMessage \<noteq> []
                  then cluster2\<lparr>Status_FailureMessage :=
                         Some (failure_citation obj @ failureMessage)\<rparr>
                  else cluster2)
           in Inr cluster3))"

text \<open>
  \<^verbatim>\<open>reconcileExternal\<close>, statement by statement. The result is the state of the API
  server, the Cluster in memory (both as they are when the function returns, also on
  an error) and the pair \<^verbatim>\<open>(ReconcileOutput, error)\<close>, which is the zero output with
  the error or an output without error.
\<close>

definition reconcileExternal ::
  "World \<Rightarrow> Cluster \<Rightarrow> RefField \<Rightarrow> World \<times> Cluster \<times> (err + ReconcileOutput)" where
  "reconcileExternal w cluster f =
     (case ref_of cluster f of
        None \<Rightarrow> (w, cluster, Inl ErrNilReference)
      | Some ref0 \<Rightarrow>
     (case UpdateReferenceAPIContract w ref0 of
        Inl e \<Rightarrow> (w, cluster, Inl e)
      | Inr ref \<Rightarrow>
     (let cluster1 = set_ref cluster f ref in
      case external_Get w (Some ref) (Namespace cluster1) of
        (w1, Inl e) \<Rightarrow>
          if e = ErrNotFound
          then (w1, cluster1, Inr (ReconcileOutput_zero\<lparr>out_RequeueAfter := 30 * Second\<rparr>))
          else (w1, cluster1, Inl e)
      | (w1, Inr obj) \<Rightarrow>
     (if annotations_IsPaused cluster1 obj
      then (w1, cluster1, Inr (ReconcileOutput_zero\<lparr>out_Paused := True\<rparr>))
      else
     (case patch_NewHelper w1 obj of
        Some e \<Rightarrow> (w1, cluster1, Inl e)
      | None \<Rightarrow>
     (case SetControllerReference cluster1 obj of
        Inl e \<Rightarrow> (w1, cluster1, Inl e)
      | Inr obj1 \<Rightarrow>
     (let obj2 = obj1\<lparr>obj_Labels := (obj_Labels obj1)(ClusterLabelName \<mapsto> Name cluster1)\<rparr> in
      case patchHelper_Patch w1 obj2 of
        (w2, Some e) \<Rightarrow> (w2, cluster1, Inl e)
      | (w2, None) \<Rightarrow>
     (case externalTracker_Watch w2 obj2 of
        (w3, Some e) \<Rightarrow> (w3, cluster1, Inl e)
      | (w3, None) \<Rightarrow>
     (case surface_failures cluster1 obj2 of
        Inl e \<Rightarrow> (w3, cluster1, Inl e)
      | Inr cluster3 \<Rightarrow>
          (w3, cluster3, Inr (ReconcileOutput_zero\<lparr>out_Result := Some obj2\<rparr>)))))))))))"

section \<open>The sub-reconcilers\<close>

record Result =
  Requeue :: bool
  RequeueAfter :: Duration

definition Result_zero :: Result where
  "Result_zero = \<lparr>Requeue = False, RequeueAfter = 0\<rparr>"

text \<open>
  A sub-reconciler returns the state of the API server, the Cluster in memory and the
  Go pair \<^verbatim>\<open>(ctrl.Result, error)\<close>; the error \<open>None\<close> is \<^verbatim>\<open>nil\<close>. An error wrapped by
  \<^verbatim>\<open>errors.Wrapf\<close> is represented by its cause.
\<close>

type_synonym Reconciled = "World \<times> Cluster \<times> Result \<times> err option"

subsection \<open>Infrastructure\<close>

definition reconcileInfrastructure :: "World \<Rightarrow> Cluster \<Rightarrow> Reconciled" where
  "reconcileInfrastructure w cluster =
     (if Spec_InfrastructureRef cluster = None then (w, cluster, Result_zero, None)
      else
     (case reconcileExternal w cluster InfrastructureRefField of
        (w1, c1, Inl e) \<Rightarrow> (w1, c1, Result_zero, Some e)
      | (w1, c1, Inr infraReconcileResult) \<Rightarrow>
     (if out_RequeueAfter infraReconcileResult > 0
      then (w1, c1, Result_zero\<lparr>RequeueAfter := out_RequeueAfter infraReconcileResult\<rparr>, None)
      else if out_Paused infraReconcileResult then (w1, c1, Result_zero, None)
      else
     (case out_Result infraReconcileResult of
        None \<Rightarrow> (w1, c1, Result_zero, Some ErrNilReference)
      | Some infraConfig \<Rightarrow>
     (if \<not> Time_IsZero (obj_DeletionTimestamp infraConfig) then (w1, c1, Result_zero, None)
      else
     (case external_IsReady infraConfig of
        Inl e \<Rightarrow> (w1, c1, Result_zero, Some e)
      | Inr ready \<Rightarrow>
     (let c2 = c1\<lparr>Status_InfrastructureReady := ready\<rparr>;
          c3 = conditions_SetMirror c2 InfrastructureReadyCondition infraConfig ready
                 WaitingForInfrastructureFallbackReason ConditionSeverityInfo []
      in
      if \<not> ready then (w1, c3, Result_zero, None)
      else
     (case (if \<not> APIEndpoint_IsValid (Spec_ControlPlaneEndpoint c3)
            then (case UnstructuredUnmarshalField (obj_spec_controlPlaneEndpoint infraConfig)
                         ''spec.controlPlaneEndpoint'' of
                    Inl e \<Rightarrow> Inl e
                  | Inr ep \<Rightarrow> Inr (c3\<lparr>Spec_ControlPlaneEndpoint := ep\<rparr>))
            else Inr c3) of
        Inl e \<Rightarrow> (w1, c3, Result_zero, Some e)
      | Inr c4 \<Rightarrow>
     (case UnstructuredUnmarshalField (obj_status_failureDomains infraConfig)
             ''status.failureDomains'' of
        Inl e \<Rightarrow>
          if e \<noteq> ErrFieldNotFound then (w1, c4, Result_zero, Some e)
          else (w1, c4, Result_zero, None)
      | Inr fd \<Rightarrow> (w1, c4\<lparr>Status_FailureDomains := fd\<rparr>, Result_zero, None))))))))))"

subsection \<open>Control plane\<close>

text \<open>
  Lines 208 to 239 of the source, the gate on the external etcd: \<open>Some\<close> is an early
  return of \<^verbatim>\<open>reconcileControlPlane\<close> with that result, \<open>None\<close> lets it go on. When the
  etcd object is not ready the control-plane object is fetched, its annotations are
  set by \<^verbatim>\<open>SetAnnotations\<close> to the map holding the paused annotation alone, and the
  object is written back by \<^verbatim>\<open>Client.Update\<close>.
\<close>

definition pause_control_plane ::
  "World \<Rightarrow> Cluster \<Rightarrow> World \<times> (Result \<times> err option) option" where
  "pause_control_plane w cluster =
     (if Spec_ManagedExternalEtcdRef cluster = None then (w, None)
      else
     (case external_Get w (Spec_ManagedExternalEtcdRef cluster) (Namespace cluster) of
        (w1, Inl e) \<Rightarrow>
          if e = ErrNotFound
          then (w1, Some (Result_zero\<lparr>RequeueAfter := 30 * Second\<rparr>, None))
          else (w1, Some (Result_zero, Some e))
      | (w1, Inr externalEtcd) \<Rightarrow>
     (case external_IsReady externalEtcd of
        Inl e \<Rightarrow> (w1, Some (Result_zero, Some e))
      | Inr externalEtcdReady \<Rightarrow>
     (if \<not> externalEtcdReady
      then
       (case external_Get w1 (Spec_ControlPlaneRef cluster) (Namespace cluster) of
          (w2, Inl e) \<Rightarrow>
            if e = ErrNotFound
            then (w2, Some (Result_zero\<lparr>RequeueAfter := 30 * Second\<rparr>, None))
            else (w2, Some (Result_zero, Some e))
        | (w2, Inr controlPlane) \<Rightarrow>
            (case Client_Update w2
                    (controlPlane\<lparr>obj_Annotations := [PausedAnnotation \<mapsto> ''true'']\<rparr>) of
               (w3, Some e) \<Rightarrow> (w3, Some (Result_zero\<lparr>Requeue := True\<rparr>, Some e))
             | (w3, None) \<Rightarrow> (w3, None)))
      else (w1, None)))))"

definition reconcileControlPlane :: "World \<Rightarrow> Cluster \<Rightarrow> Reconciled" where
  "reconcileControlPlane w cluster =
     (if Spec_ControlPlaneRef cluster = None then (w, cluster, Result_zero, None)
      else
     (case pause_control_plane w cluster of
        (w0, Some (res, e)) \<Rightarrow> (w0, cluster, res, e)
      | (w0, None) \<Rightarrow>
     (case reconcileExternal w0 cluster ControlPlaneRefField of
        (w1, c1, Inl e) \<Rightarrow> (w1, c1, Result_zero, Some e)
      | (w1, c1, Inr controlPlaneReconcileResult) \<Rightarrow>
     (if out_RequeueAfter controlPlaneReconcileResult > 0
      then (w1, c1,
            Result_zero\<lparr>RequeueAfter := out_RequeueAfter controlPlaneReconcileResult\<rparr>, None)
      else if out_Paused controlPlaneReconcileResult then (w1, c1, Result_zero, None)
      else
     (case out_Result controlPlaneReconcileResult of
        None \<Rightarrow> (w1, c1, Result_zero, Some ErrNilReference)
      | Some controlPlaneConfig \<Rightarrow>
     (if \<not> Time_IsZero (obj_DeletionTimestamp controlPlaneConfig)
      then (w1, c1, Result_zero, None)
      else
     (case external_IsReady controlPlaneConfig of
        Inl e \<Rightarrow> (w1, c1, Result_zero, Some e)
      | Inr ready \<Rightarrow>
     (let c2 = c1\<lparr>Status_ControlPlaneReady := ready\<rparr>;
          c3 = conditions_SetMirror c2 ControlPlaneReadyCondition controlPlaneConfig ready
                 WaitingForControlPlaneFallbackReason ConditionSeverityInfo []
      in
      if \<not> conditions_IsTrue c3 ControlPlaneInitializedCondition
      then
       (case external_IsInitialized controlPlaneConfig of
          Inl e \<Rightarrow> (w1, c3, Result_zero, Some e)
        | Inr initialized \<Rightarrow>
            if initialized
            then (w1, conditions_MarkTrue c3 ControlPlaneInitializedCondition,
                  Result_zero, None)
            else (w1,
                  conditions_MarkFalse c3 ControlPlaneInitializedCondition
                    WaitingForControlPlaneProviderInitializedReason ConditionSeverityInfo
                    ''Waiting for control plane provider to indicate the control plane has been initialized'',
                  Result_zero, None))
      else (w1, c3, Result_zero, None)))))))))"

subsection \<open>Managed external etcd\<close>

text \<open>
  Lines 325 to 340 of the source, run when the etcd object is ready: the control-plane
  object named by \<^verbatim>\<open>cluster.Spec.ControlPlaneRef\<close> is fetched (the source passes the
  field as it is, set or nil) and, if it carries the paused annotation, that one
  annotation is removed by \<^verbatim>\<open>RemoveNestedField\<close> and the object is written back.
  \<open>Some\<close> is an early return of \<^verbatim>\<open>reconcileEtcdCluster\<close>, \<open>None\<close> lets it go on.
\<close>

definition resume_control_plane ::
  "World \<Rightarrow> Cluster \<Rightarrow> World \<times> (Result \<times> err option) option" where
  "resume_control_plane w cluster =
     (case external_Get w (Spec_ControlPlaneRef cluster) (Namespace cluster) of
        (w1, Inl e) \<Rightarrow>
          if e = ErrNotFound
          then (w1, Some (Result_zero\<lparr>RequeueAfter := 30 * Second\<rparr>, None))
          else (w1, Some (Result_zero, Some e))
      | (w1, Inr controlPlane) \<Rightarrow>
          if annotations_HasPausedAnnotation controlPlane
          then
           (case Client_Update w1
                   (controlPlane\<lparr>obj_Annotations :=
                      (obj_Annotations controlPlane)(PausedAnnotation := None)\<rparr>) of
              (w2, Some e) \<Rightarrow> (w2, Some (Result_zero\<lparr>Requeue := True\<rparr>, Some e))
            | (w2, None) \<Rightarrow> (w2, None))
          else (w1, None))"

text \<open>
  Lines 350 to 362 of the source, the latch of the initialized flag: the etcd object's
  \<^verbatim>\<open>status.initialized\<close> is read only while the condition is not True.
\<close>

definition latch_etcd_initialized :: "Cluster \<Rightarrow> Unstructured \<Rightarrow> Cluster \<times> err option" where
  "latch_etcd_initialized cluster etcdPlaneConfig =
     (if \<not> conditions_IsTrue cluster ManagedExternalEtcdClusterInitializedCondition
      then
       (case external_IsInitialized etcdPlaneConfig of
          Inl e \<Rightarrow> (cluster, Some e)
        | Inr initialized \<Rightarrow>
            if initialized
            then (conditions_MarkTrue
                    (cluster\<lparr>Status_ManagedExternalEtcdInitialized := True\<rparr>)
                    ManagedExternalEtcdClusterInitializedCondition, None)
            else (conditions_MarkFalse cluster ManagedExternalEtcdClusterInitializedCondition
                    WaitingForEtcdClusterInitializedReason ConditionSeverityInfo
                    ''Waiting for etcd cluster provider to indicate the etcd has been initialized'',
                  None))
      else (cluster, None))"

definition reconcileEtcdCluster :: "World \<Rightarrow> Cluster \<Rightarrow> Reconciled" where
  "reconcileEtcdCluster w cluster =
     (if Spec_ManagedExternalEtcdRef cluster = None then (w, cluster, Result_zero, None)
      else
     (case reconcileExternal w cluster ManagedExternalEtcdRefField of
        (w1, c1, Inl e) \<Rightarrow> (w1, c1, Result_zero, Some e)
      | (w1, c1, Inr etcdPlaneReconcileResult) \<Rightarrow>
     (if out_RequeueAfter etcdPlaneReconcileResult > 0
      then (w1, c1,
            Result_zero\<lparr>RequeueAfter := out_RequeueAfter etcdPlaneReconcileResult\<rparr>, None)
      else if out_Paused etcdPlaneReconcileResult then (w1, c1, Result_zero, None)
      else
     (case out_Result etcdPlaneReconcileResult of
        None \<Rightarrow> (w1, c1, Result_zero, Some ErrNilReference)
      | Some etcdPlaneConfig \<Rightarrow>
     (if \<not> Time_IsZero (obj_DeletionTimestamp etcdPlaneConfig)
      then (w1, c1, Result_zero, None)
      else
     (case external_IsReady etcdPlaneConfig of
        Inl e \<Rightarrow> (w1, c1, Result_zero, Some e)
      | Inr ready \<Rightarrow>
     (let c2 = c1\<lparr>Status_ManagedExternalEtcdReady := ready\<rparr> in
      case (if ready then resume_control_plane w1 c2 else (w1, None)) of
        (w2, Some (res, e)) \<Rightarrow> (w2, c2, res, e)
      | (w2, None) \<Rightarrow>
     (let c3 = conditions_SetMirror c2 ManagedExternalEtcdClusterReadyCondition
                 etcdPlaneConfig ready
                 WaitingForEtcdClusterInitializedReason ConditionSeverityInfo []
      in
      case latch_etcd_initialized c3 etcdPlaneConfig of
        (c4, e) \<Rightarrow> (w2, c4, Result_zero, e)))))))))"

subsection \<open>Kubeconfig\<close>

text \<open>
  Modelled from the spec: the package \<^verbatim>\<open>util/secret\<close> is not among the sources. The
  spec: "look up the secret named {cluster.name}-kubeconfig in the cluster namespace".
\<close>

definition secret_Get :: "World \<Rightarrow> string \<Rightarrow> string \<Rightarrow> err option" where
  "secret_Get w ns nm =
     (case faults w (OpSecretGet ns nm) of
        Some e \<Rightarrow> Some e
      | None \<Rightarrow> if (ns, nm) \<in> set (secrets w) then None else Some ErrNotFound)"

text \<open>
  Modelled from the spec: the package \<^verbatim>\<open>util/kubeconfig\<close> is not among the sources.
  The spec: "ask the kubeconfig collaborator to mint one from the cluster CA secret",
  with the case that "the CA secret itself is missing".
\<close>

definition kubeconfig_CreateSecret :: "World \<Rightarrow> Cluster \<Rightarrow> World \<times> err option" where
  "kubeconfig_CreateSecret w cluster =
     (if (Namespace cluster, Name cluster @ ''-ca'') \<notin> set (secrets w)
      then (w, Some ErrDependentCertificateNotFound)
      else case faults w (OpSecretCreate (Namespace cluster) (Name cluster @ ''-kubeconfig'')) of
        Some e \<Rightarrow> (w, Some e)
      | None \<Rightarrow>
          (w\<lparr>secrets := secrets w @ [(Namespace cluster, Name cluster @ ''-kubeconfig'')]\<rparr>,
           None))"

definition reconcileKubeconfig :: "World \<Rightarrow> Cluster \<Rightarrow> Reconciled" where
  "reconcileKubeconfig w cluster =
     (if \<not> APIEndpoint_IsValid (Spec_ControlPlaneEndpoint cluster)
      then (w, cluster, Result_zero, None)
      else if Spec_ControlPlaneRef cluster \<noteq> None then (w, cluster, Result_zero, None)
      else
     (case secret_Get w (Namespace cluster) (Name cluster @ ''-kubeconfig'') of
        Some err \<Rightarrow>
          if err = ErrNotFound
          then
           (case kubeconfig_CreateSecret w cluster of
              (w1, Some e) \<Rightarrow>
                if e = ErrDependentCertificateNotFound
                then (w1, cluster, Result_zero\<lparr>RequeueAfter := 30 * Second\<rparr>, None)
                else (w1, cluster, Result_zero, Some e)
            | (w1, None) \<Rightarrow> (w1, cluster, Result_zero, None))
          else (w, cluster, Result_zero, Some err)
      | None \<Rightarrow> (w, cluster, Result_zero, None)))"

subsection \<open>Reading a result\<close>

definition result_world :: "Reconciled \<Rightarrow> World" where
  "result_world r = fst r"

definition result_cluster :: "Reconciled \<Rightarrow> Cluster" where
  "result_cluster r = fst (snd r)"

definition result_Result :: "Reconciled \<Rightarrow> Result" where
  "result_Result r = fst (snd (snd r))"

definition result_error :: "Reconciled \<Rightarrow> err option" where
  "result_error r = snd (snd (snd r))"

text \<open>
  The same for \<^verbatim>\<open>reconcileExternal\<close>; \<open>reconciled_to_end\<close> says that it returned
  the object as its result: no error, no requeue, not paused.
\<close>

definition ext_world :: "World \<times> Cluster \<times> (err + ReconcileOutput) \<Rightarrow> World" where
  "ext_world r = fst r"

definition ext_cluster :: "World \<times> Cluster \<times> (err + ReconcileOutput) \<Rightarrow> Cluster" where
  "ext_cluster r = fst (snd r)"

definition ext_output :: "World \<times> Cluster \<times> (err + ReconcileOutput) \<Rightarrow> err + ReconcileOutput" where
  "ext_output r = snd (snd r)"

definition reconciled_to_end :: "err + ReconcileOutput \<Rightarrow> bool" where
  "reconciled_to_end r = (case r of Inl e \<Rightarrow> False | Inr out \<Rightarrow> out_Result out \<noteq> None)"

section \<open>The resource enumerator\<close>

text \<open>
  \<^verbatim>\<open>ListResources\<close> of the clusterctl proxy. What it obtains from the management
  cluster is the state \<open>Management\<close>: whether the two clients can be built, the
  preferred API resources from discovery, the CRDs, the stored objects, and the list
  calls that fail. Each call wrapped in \<^verbatim>\<open>retryWithExponentialBackoff\<close> is
  represented by its final outcome.
\<close>

record APIResource =
  res_Name :: string
  res_Kind :: string
  res_Namespaced :: bool
  res_Verbs :: "string list"

record APIResourceList =
  rl_GroupVersion :: string
  rl_APIResources :: "APIResource list"

record CustomResourceDefinition =
  crd_Labels :: "string \<rightharpoonup> string"
  crd_Group :: string
  crd_Kind :: string
  crd_Versions :: "string list"

record Management =
  mgmt_newClientSet :: "err option"
  mgmt_NewClient :: "err option"
  mgmt_ServerPreferredResources :: "err + APIResourceList list"
  mgmt_CRDs :: "err + CustomResourceDefinition list"
  mgmt_objects :: "Unstructured list"
  mgmt_list_faults :: "string \<times> string \<rightharpoonup> err"

text \<open>
  Modelled from the spec: the label name is declared in an API package that is not
  among the sources; the spec gives it as \<^verbatim>\<open>clusterctl.cluster.x-k8s.io/core\<close>.
\<close>

definition ClusterctlCoreLabelName :: string where
  "ClusterctlCoreLabelName = ''clusterctl.cluster.x-k8s.io/core''"

text \<open>
  Modelled from the spec: the value is declared in an API package that is not among
  the sources; the spec gives it as \<^verbatim>\<open>cert-manager\<close>.
\<close>

definition ClusterctlCoreLabelCertManagerValue :: string where
  "ClusterctlCoreLabelCertManagerValue = ''cert-manager''"

text \<open>
  Modelled from the spec: the label name is declared in an API package that is not
  among the sources; the spec gives it as \<^verbatim>\<open>cluster.x-k8s.io/provider\<close>.
\<close>

definition ProviderLabelName :: string where
  "ProviderLabelName = ''cluster.x-k8s.io/provider''"

text \<open>
  The selector \<^verbatim>\<open>labels map[string]string\<close> is an association list read through
  \<open>map_of\<close>. \<^verbatim>\<open>client.MatchingLabels\<close> keeps the objects that carry every pair of
  the selector; \<^verbatim>\<open>client.InNamespace\<close> keeps the objects of that namespace, and of
  every namespace when the name is empty.
\<close>

definition MatchingLabels :: "(string \<times> string) list \<Rightarrow> Unstructured \<Rightarrow> bool" where
  "MatchingLabels labels obj = list_all (\<lambda>k. obj_Labels obj k = map_of labels k) (map fst labels)"

definition InNamespace :: "string option \<Rightarrow> Unstructured \<Rightarrow> bool" where
  "InNamespace ns obj =
     (case ns of None \<Rightarrow> True | Some n \<Rightarrow> n = [] \<or> obj_Namespace obj = n)"

text \<open>
  \<^verbatim>\<open>listObjByGVK\<close>: the list call for one group-version and kind; a not-found error
  of the call is swallowed and leaves the list empty, any other error is returned.
\<close>

definition listObjByGVK ::
  "Management \<Rightarrow> string \<Rightarrow> string \<Rightarrow> (string \<times> string) list \<Rightarrow> string option
     \<Rightarrow> err + Unstructured list" where
  "listObjByGVK m groupVersion kind labels ns =
     (case mgmt_list_faults m (groupVersion, kind) of
        Some e \<Rightarrow> if e \<noteq> ErrNotFound then Inl e else Inr []
      | None \<Rightarrow>
          Inr (filter (\<lambda>obj. obj_APIVersion obj = groupVersion \<and> obj_Kind obj = kind
                             \<and> MatchingLabels labels obj \<and> InNamespace ns obj)
                 (mgmt_objects m)))"

text \<open>
  Lines 187 to 207: the strings of the kinds to exclude, one for every version of
  every CRD for which the test of line 198 holds.
\<close>

definition crd_is_excluded :: "(string \<times> string) list \<Rightarrow> CustomResourceDefinition \<Rightarrow> bool" where
  "crd_is_excluded labels crd =
     ((map_of labels ClusterctlCoreLabelName \<noteq> None
        \<and> map_of labels ClusterctlCoreLabelName = Some ClusterctlCoreLabelCertManagerValue)
      \<or> crd_Labels crd ProviderLabelName \<noteq> None)"

definition crdsToExclude ::
  "(string \<times> string) list \<Rightarrow> CustomResourceDefinition list \<Rightarrow> string list" where
  "crdsToExclude labels crdList =
     concat (map (\<lambda>crd.
        if crd_is_excluded labels crd
        then map (\<lambda>version. GroupVersionKind_String (crd_Group crd, version, crd_Kind crd))
               (crd_Versions crd)
        else []) crdList)"

text \<open>
  \<^verbatim>\<open>discovery.FilteredBy\<close> with \<^verbatim>\<open>SupportsAllVerbs\<close>: the resources that support
  every verb asked for, and the groups that keep at least one resource.
\<close>

definition SupportsAllVerbs :: "string list \<Rightarrow> APIResource \<Rightarrow> bool" where
  "SupportsAllVerbs verbs r = list_all (\<lambda>v. v \<in> set (res_Verbs r)) verbs"

definition FilteredBy :: "(APIResource \<Rightarrow> bool) \<Rightarrow> APIResourceList list \<Rightarrow> APIResourceList list" where
  "FilteredBy p resourceList =
     filter (\<lambda>g. rl_APIResources g \<noteq> [])
       (map (\<lambda>g. g\<lparr>rl_APIResources := filter p (rl_APIResources g)\<rparr>) resourceList)"

text \<open>Lines 216 and 217: the kinds of \<^verbatim>\<open>extensions/v1beta1\<close> that are discarded.\<close>

definition is_extensions_alias :: "string \<Rightarrow> APIResource \<Rightarrow> bool" where
  "is_extensions_alias groupVersion resourceKind =
     (groupVersion = ''extensions/v1beta1''
      \<and> (res_Name resourceKind = ''daemonsets'' \<or> res_Name resourceKind = ''deployments''
          \<or> res_Name resourceKind = ''replicasets'' \<or> res_Name resourceKind = ''networkpolicies''
          \<or> res_Name resourceKind = ''ingresses''))"

text \<open>
  The three nested loops of lines 213 to 251, innermost first. The objects are
  collected in the order of the loops; an error ends the enumeration and nothing is
  returned with it.
\<close>

fun list_in_namespaces ::
  "Management \<Rightarrow> string \<Rightarrow> string \<Rightarrow> (string \<times> string) list \<Rightarrow> string list
     \<Rightarrow> err + Unstructured list" where
  "list_in_namespaces m groupVersion kind labels [] = Inr []"
| "list_in_namespaces m groupVersion kind labels (namespace # namespaces) =
     (case listObjByGVK m groupVersion kind labels (Some namespace) of
        Inl e \<Rightarrow> Inl e
      | Inr items \<Rightarrow>
          (case list_in_namespaces m groupVersion kind labels namespaces of
             Inl e \<Rightarrow> Inl e
           | Inr ret \<Rightarrow> Inr (items @ ret)))"

definition list_resourceKind ::
  "Management \<Rightarrow> (string \<times> string) list \<Rightarrow> string list \<Rightarrow> string list \<Rightarrow> string
     \<Rightarrow> APIResource \<Rightarrow> err + Unstructured list" where
  "list_resourceKind m labels namespaces excluded groupVersion resourceKind =
     (if is_extensions_alias groupVersion resourceKind then Inr []
      else case ParseGroupVersion groupVersion of
        Inl e \<Rightarrow> Inl e
      | Inr (g, v) \<Rightarrow>
          if GroupVersionKind_String (g, v, res_Kind resourceKind) \<in> set excluded then Inr []
          else if res_Namespaced resourceKind
          then list_in_namespaces m groupVersion (res_Kind resourceKind) labels namespaces
          else listObjByGVK m groupVersion (res_Kind resourceKind) labels None)"

fun list_resourceKinds ::
  "Management \<Rightarrow> (string \<times> string) list \<Rightarrow> string list \<Rightarrow> string list \<Rightarrow> string
     \<Rightarrow> APIResource list \<Rightarrow> err + Unstructured list" where
  "list_resourceKinds m labels namespaces excluded groupVersion [] = Inr []"
| "list_resourceKinds m labels namespaces excluded groupVersion (resourceKind # rest) =
     (case list_resourceKind m labels namespaces excluded groupVersion resourceKind of
        Inl e \<Rightarrow> Inl e
      | Inr items \<Rightarrow>
          (case list_resourceKinds m labels namespaces excluded groupVersion rest of
             Inl e \<Rightarrow> Inl e
           | Inr ret \<Rightarrow> Inr (items @ ret)))"

fun list_resourceGroups ::
  "Management \<Rightarrow> (string \<times> string) list \<Rightarrow> string list \<Rightarrow> string list
     \<Rightarrow> APIResourceList list \<Rightarrow> err + Unstructured list" where
  "list_resourceGroups m labels namespaces excluded [] = Inr []"
| "list_resourceGroups m labels namespaces excluded (resourceGroup # rest) =
     (case list_resourceKinds m labels namespaces excluded (rl_GroupVersion resourceGroup)
             (rl_APIResources resourceGroup) of
        Inl e \<Rightarrow> Inl e
      | Inr items \<Rightarrow>
          (case list_resourceGroups m labels namespaces excluded rest of
             Inl e \<Rightarrow> Inl e
           | Inr ret \<Rightarrow> Inr (items @ ret)))"

definition ListResources ::
  "Management \<Rightarrow> (string \<times> string) list \<Rightarrow> string list \<Rightarrow> err + Unstructured list" where
  "ListResources m labels namespaces =
     (case mgmt_newClientSet m of
        Some e \<Rightarrow> Inl e
      | None \<Rightarrow>
     (case mgmt_NewClient m of
        Some e \<Rightarrow> Inl e
      | None \<Rightarrow>
     (case mgmt_ServerPreferredResources m of
        Inl e \<Rightarrow> Inl e
      | Inr resourceList \<Rightarrow>
     (case mgmt_CRDs m of
        Inl e \<Rightarrow> Inl e
      | Inr crdList \<Rightarrow>
          list_resourceGroups m labels namespaces (crdsToExclude labels crdList)
            (FilteredBy (SupportsAllVerbs [''list'', ''delete'']) resourceList)))))"

text \<open>
  The exclusion set in the words of the spec: the triples (group, version, kind) of
  every version declared by a CRD that carries a provider label, and of every version
  of every CRD when the selector maps the core label to cert-manager.
\<close>

definition exclusion_set ::
  "(string \<times> string) list \<Rightarrow> CustomResourceDefinition list \<Rightarrow> (string \<times> string \<times> string) set" where
  "exclusion_set labels crdList =
     {(crd_Group crd, version, crd_Kind crd) | crd version.
        crd \<in> set crdList \<and> version \<in> set (crd_Versions crd)
        \<and> (crd_Labels crd ProviderLabelName \<noteq> None
            \<or> map_of labels ClusterctlCoreLabelName = Some ''cert-manager'')}"

section \<open>Sample objects and servers\<close>

text \<open>
  Concrete references, objects and server states on which the reconcilers are
  evaluated: a bare object for a reference, and a server that stores a list of
  objects, answers every call and leaves the API versions as they are.
\<close>

definition infra_ref :: ObjectReference where
  "infra_ref =
     \<lparr>ref_APIVersion = ''infrastructure.cluster.x-k8s.io/v1beta1'', ref_Kind = ''Foo'',
      ref_Name = ''foo1''\<rparr>"

definition cp_ref :: ObjectReference where
  "cp_ref =
     \<lparr>ref_APIVersion = ''controlplane.cluster.x-k8s.io/v1beta1'',
      ref_Kind = ''KubeadmControlPlane'', ref_Name = ''cp1''\<rparr>"

definition etcd_ref :: ObjectReference where
  "etcd_ref =
     \<lparr>ref_APIVersion = ''etcdcluster.cluster.x-k8s.io/v1beta1'', ref_Kind = ''EtcdadmCluster'',
      ref_Name = ''etcd1''\<rparr>"

definition object_for :: "ObjectReference \<Rightarrow> string \<Rightarrow> Unstructured" where
  "object_for r ns =
     \<lparr>obj_APIVersion = ref_APIVersion r, obj_Kind = ref_Kind r, obj_Namespace = ns,
      obj_Name = ref_Name r, obj_Labels = Map.empty, obj_Annotations = Map.empty,
      obj_OwnerReferences = [], obj_DeletionTimestamp = None,
      obj_status_ready = Absent, obj_status_initialized = Absent,
      obj_status_failureReason = Absent, obj_status_failureMessage = Absent,
      obj_status_failureDomains = Absent, obj_spec_controlPlaneEndpoint = Absent,
      obj_ReadyCondition = None\<rparr>"

definition server_with :: "Unstructured list \<Rightarrow> World" where
  "server_with objs =
     \<lparr>objects = map_of (map (\<lambda>obj. (key_of obj, obj)) objs),
      apiContract = (\<lambda>r. Inr (ref_APIVersion r)),
      faults = Map.empty, watched = [], secrets = [], calls = []\<rparr>"

text \<open>An etcd reference without a control-plane reference, the etcd object ready.\<close>

definition etcd_only_cluster :: Cluster where
  "etcd_only_cluster = empty_cluster\<lparr>Spec_ManagedExternalEtcdRef := Some etcd_ref\<rparr>"

definition ready_etcd_server :: World where
  "ready_etcd_server =
     server_with [(object_for etcd_ref ''default'')\<lparr>obj_status_ready := Present True\<rparr>]"

text \<open>
  An etcd reference and a control-plane reference, the etcd object not ready, the
  control-plane object carrying an annotation of its own.
\<close>

definition etcd_cp_cluster :: Cluster where
  "etcd_cp_cluster =
     empty_cluster\<lparr>Spec_ManagedExternalEtcdRef := Some etcd_ref,
                   Spec_ControlPlaneRef := Some cp_ref\<rparr>"

definition annotated_control_plane :: Unstructured where
  "annotated_control_plane =
     (object_for cp_ref ''default'')\<lparr>obj_Annotations := [''example.com/owner'' \<mapsto> ''team-a'']\<rparr>"

definition unready_etcd_server :: World where
  "unready_etcd_server =
     server_with [(object_for etcd_ref ''default'')\<lparr>obj_status_ready := Present False\<rparr>,
                  annotated_control_plane]"

text \<open>No infrastructure reference, the ready flag left set by an earlier reconcile.\<close>

definition stale_ready_cluster :: Cluster where
  "stale_ready_cluster = empty_cluster\<lparr>Status_InfrastructureReady := True\<rparr>"

text \<open>An infrastructure object that reports a failure (scenario 5 of the spec).\<close>

definition infra_cluster :: Cluster where
  "infra_cluster = empty_cluster\<lparr>Spec_InfrastructureRef := Some infra_ref\<rparr>"

definition failed_infra :: Unstructured where
  "failed_infra =
     (object_for infra_ref ''default'')
       \<lparr>obj_status_failureReason := Present ''InvalidImage'',
        obj_status_failureMessage := Present ''not found''\<rparr>"

definition paused_infra :: Unstructured where
  "paused_infra =
     (object_for infra_ref ''default'')\<lparr>obj_Annotations := [PausedAnnotation \<mapsto> ''true'']\<rparr>"

text \<open>
  A Cluster that carries failure fields from an earlier reconcile, and an
  infrastructure object that reports none.
\<close>

definition previously_failed_cluster :: Cluster where
  "previously_failed_cluster =
     infra_cluster\<lparr>Status_FailureReason := Some ''InvalidImage'',
                   Status_FailureMessage := Some ''earlier message''\<rparr>"

definition healthy_infra :: Unstructured where
  "healthy_infra = (object_for infra_ref ''default'')\<lparr>obj_status_ready := Present True\<rparr>"

text \<open>Scenario 2 of the spec: the infrastructure is ready and the end point is valid.\<close>

definition provisioned_cluster :: Cluster where
  "provisioned_cluster =
     infra_cluster\<lparr>Status_InfrastructureReady := True,
                   Spec_ControlPlaneEndpoint := \<lparr>Host = ''1.2.3.4'', Port = 6443\<rparr>\<rparr>"

text \<open>An infrastructure object that is absent, and a server whose read fails.\<close>

definition failing_read_server :: World where
  "failing_read_server =
     (server_with [])\<lparr>faults := [OpGet (ref_key infra_ref ''default'') \<mapsto> ErrAPI ''timeout'']\<rparr>"

text \<open>
  A Cluster whose etcd has been marked initialized, and an etcd object that no longer
  reports \<^verbatim>\<open>status.initialized\<close>.
\<close>

definition initialized_cluster :: Cluster where
  "initialized_cluster =
     etcd_cp_cluster
       \<lparr>Status_ManagedExternalEtcdInitialized := True,
        Status_Conditions := [ManagedExternalEtcdClusterInitializedCondition \<mapsto> TrueCondition]\<rparr>"

definition regressed_etcd :: Unstructured where
  "regressed_etcd =
     (object_for etcd_ref ''default'')
       \<lparr>obj_status_ready := Present True, obj_status_initialized := Present False\<rparr>"

definition regressed_etcd_server :: World where
  "regressed_etcd_server = server_with [regressed_etcd, object_for cp_ref ''default'']"

text \<open>Scenario 6 of the spec: the provider \<open>aws\<close>, its CRD, its Deployment.\<close>

definition aws_selector :: "(string \<times> string) list" where
  "aws_selector = [(''cluster.x-k8s.io/provider'', ''aws'')]"

definition aws_crd :: CustomResourceDefinition where
  "aws_crd =
     \<lparr>crd_Labels = [''cluster.x-k8s.io/provider'' \<mapsto> ''aws''],
      crd_Group = ''infrastructure.cluster.x-k8s.io'', crd_Kind = ''AWSCluster'',
      crd_Versions = [''v1'', ''v2'']\<rparr>"

definition aws_deployment :: Unstructured where
  "aws_deployment =
     (object_for
        \<lparr>ref_APIVersion = ''apps/v1'', ref_Kind = ''Deployment'',
         ref_Name = ''capa-controller-manager''\<rparr> ''default'')
       \<lparr>obj_Labels := [''cluster.x-k8s.io/provider'' \<mapsto> ''aws'']\<rparr>"

definition aws_cluster_object :: Unstructured where
  "aws_cluster_object =
     (object_for
        \<lparr>ref_APIVersion = ''infrastructure.cluster.x-k8s.io/v2'', ref_Kind = ''AWSCluster'',
         ref_Name = ''workload''\<rparr> ''default'')
       \<lparr>obj_Labels := [''cluster.x-k8s.io/provider'' \<mapsto> ''aws'']\<rparr>"

definition all_verbs :: "string list" where
  "all_verbs = [''create'', ''delete'', ''get'', ''list'', ''patch'', ''update'', ''watch'']"

definition aws_resources :: "APIResourceList list" where
  "aws_resources =
     [\<lparr>rl_GroupVersion = ''apps/v1'',
       rl_APIResources =
         [\<lparr>res_Name = ''deployments'', res_Kind = ''Deployment'', res_Namespaced = True,
           res_Verbs = all_verbs\<rparr>]\<rparr>,
      \<lparr>rl_GroupVersion = ''infrastructure.cluster.x-k8s.io/v2'',
       rl_APIResources =
         [\<lparr>res_Name = ''awsclusters'', res_Kind = ''AWSCluster'', res_Namespaced = True,
           res_Verbs = all_verbs\<rparr>]\<rparr>]"

definition aws_management :: Management where
  "aws_management =
     \<lparr>mgmt_newClientSet = None, mgmt_NewClient = None,
      mgmt_ServerPreferredResources = Inr aws_resources,
      mgmt_CRDs = Inr [aws_crd],
      mgmt_objects = [aws_cluster_object, aws_deployment],
      mgmt_list_faults = Map.empty\<rparr>"

section \<open>Properties of the phase labeler\<close>

lemmas phase_clause_defs =
  phase_clause_Pending_def phase_clause_Provisioning_def phase_clause_Provisioned_def
  phase_clause_Failed_def phase_clause_Deleting_def SetTypedPhase_def

lemmas ClusterPhase_defs =
  ClusterPhasePending_def ClusterPhaseProvisioning_def ClusterPhaseProvisioned_def
  ClusterPhaseFailed_def ClusterPhaseDeleting_def

lemma reconcilePhase_frame:
  "Status_FailureReason (reconcilePhase c) = Status_FailureReason c"
  "Status_FailureMessage (reconcilePhase c) = Status_FailureMessage c"
  "DeletionTimestamp (reconcilePhase c) = DeletionTimestamp c"
  "Status_InfrastructureReady (reconcilePhase c) = Status_InfrastructureReady c"
  "Status_ManagedExternalEtcdInitialized (reconcilePhase c) = Status_ManagedExternalEtcdInitialized c"
  by (simp_all add: reconcilePhase_def phase_clause_defs)

text \<open>
  C1 (as stated, refuted). The labeler keeps a phase string it does not overwrite: a
  Cluster that arrives with phase \<open>Failed\<close>, no infrastructure reference, no failure
  field and no deletion time stamp leaves with phase \<open>Failed\<close> although neither
  failure field is set.
\<close>

theorem reconcilePhase_stale_Failed_counterexample:
  "Status_Phase (reconcilePhase stale_failed_cluster) = ClusterPhaseFailed
   \<and> Status_FailureReason (reconcilePhase stale_failed_cluster) = None
   \<and> Status_FailureMessage (reconcilePhase stale_failed_cluster) = None
   \<and> Time_IsZero (DeletionTimestamp (reconcilePhase stale_failed_cluster))"
  by (simp add: reconcilePhase_def phase_clause_defs ClusterPhase_defs
      stale_failed_cluster_def empty_cluster_def APIEndpoint_IsValid_def Time_IsZero_def)

text \<open>
  C1 (amended). After the labeler: with a deletion time stamp the phase is
  \<open>Deleting\<close>; without one, a set failure field gives \<open>Failed\<close>, and the phase is
  \<open>Failed\<close> exactly when a failure field is set provided the phase on entry was not
  already \<open>Failed\<close> or one of the Provisioning and Provisioned clauses fires.
\<close>

theorem reconcilePhase_Failed_iff:
  "(\<not> Time_IsZero (DeletionTimestamp c) \<longrightarrow>
      Status_Phase (reconcilePhase c) = ClusterPhaseDeleting)
   \<and> (Time_IsZero (DeletionTimestamp c)
        \<and> (Status_FailureReason c \<noteq> None \<or> Status_FailureMessage c \<noteq> None) \<longrightarrow>
      Status_Phase (reconcilePhase c) = ClusterPhaseFailed)
   \<and> (Time_IsZero (DeletionTimestamp c)
        \<and> (Status_Phase c \<noteq> ClusterPhaseFailed
            \<or> Spec_InfrastructureRef c \<noteq> None
            \<or> (Status_InfrastructureReady c
                \<and> APIEndpoint_IsValid (Spec_ControlPlaneEndpoint c))) \<longrightarrow>
      (Status_Phase (reconcilePhase c) = ClusterPhaseFailed
         \<longleftrightarrow> Status_FailureReason (reconcilePhase c) \<noteq> None
              \<or> Status_FailureMessage (reconcilePhase c) \<noteq> None))"
  by (auto simp add: reconcilePhase_def phase_clause_defs ClusterPhase_defs)

theorem reconcilePhase_Failed_iff_witness:
  "\<not> Time_IsZero (DeletionTimestamp failed_deleted_cluster)
   \<and> Status_Phase (reconcilePhase failed_deleted_cluster) = ClusterPhaseDeleting
   \<and> Time_IsZero (DeletionTimestamp empty_cluster)
   \<and> Status_Phase empty_cluster \<noteq> ClusterPhaseFailed
   \<and> Status_Phase (reconcilePhase empty_cluster) \<noteq> ClusterPhaseFailed
   \<and> Status_FailureReason (reconcilePhase empty_cluster) = None
   \<and> Status_FailureMessage (reconcilePhase empty_cluster) = None"
  using reconcilePhase_Failed_iff [of failed_deleted_cluster]
    reconcilePhase_Failed_iff [of empty_cluster]
  by (simp add: failed_deleted_cluster_def empty_cluster_def Time_IsZero_def
      ClusterPhase_defs reconcilePhase_frame)

lemma phase_clause_only_phase:
  "phase_clause_Pending c = c\<lparr>Status_Phase := Status_Phase (phase_clause_Pending c)\<rparr>"
  "phase_clause_Provisioning c = c\<lparr>Status_Phase := Status_Phase (phase_clause_Provisioning c)\<rparr>"
  "phase_clause_Provisioned c = c\<lparr>Status_Phase := Status_Phase (phase_clause_Provisioned c)\<rparr>"
  "phase_clause_Failed c = c\<lparr>Status_Phase := Status_Phase (phase_clause_Failed c)\<rparr>"
  "phase_clause_Deleting c = c\<lparr>Status_Phase := Status_Phase (phase_clause_Deleting c)\<rparr>"
  by (simp_all add: phase_clause_defs)

lemma reconcilePhase_value:
  "Status_Phase (reconcilePhase c) =
        (if \<not> Time_IsZero (DeletionTimestamp c) then ''Deleting''
         else if Status_FailureReason c \<noteq> None \<or> Status_FailureMessage c \<noteq> None
           then ''Failed''
         else if Status_InfrastructureReady c \<and> Host (Spec_ControlPlaneEndpoint c) \<noteq> []
                 \<and> Port (Spec_ControlPlaneEndpoint c) \<noteq> 0
           then ''Provisioned''
         else if Spec_InfrastructureRef c \<noteq> None then ''Provisioning''
         else if Status_Phase c = [] then ''Pending''
         else Status_Phase c)"
  by (auto simp add: reconcilePhase_def phase_clause_defs ClusterPhase_defs APIEndpoint_IsValid_def)

lemma reconcilePhase_only_phase:
  "reconcilePhase c = c\<lparr>Status_Phase := Status_Phase (reconcilePhase c)\<rparr>"
  by (simp add: reconcilePhase_def phase_clause_defs)

lemma reconcilePhase_priority:
  "reconcilePhase c =
     c\<lparr>Status_Phase :=
        (if \<not> Time_IsZero (DeletionTimestamp c) then ''Deleting''
         else if Status_FailureReason c \<noteq> None \<or> Status_FailureMessage c \<noteq> None
           then ''Failed''
         else if Status_InfrastructureReady c \<and> Host (Spec_ControlPlaneEndpoint c) \<noteq> []
                 \<and> Port (Spec_ControlPlaneEndpoint c) \<noteq> 0
           then ''Provisioned''
         else if Spec_InfrastructureRef c \<noteq> None then ''Provisioning''
         else if Status_Phase c = [] then ''Pending''
         else Status_Phase c)\<rparr>"
  by (subst reconcilePhase_only_phase) (simp only: reconcilePhase_value)

lemma phase_clause_eqs:
  "phase_clause_Pending c =
     (if Status_Phase c = [] then c\<lparr>Status_Phase := ''Pending''\<rparr> else c)"
  "phase_clause_Provisioning c =
     (if Spec_InfrastructureRef c \<noteq> None then c\<lparr>Status_Phase := ''Provisioning''\<rparr> else c)"
  "phase_clause_Provisioned c =
     (if Status_InfrastructureReady c \<and> Host (Spec_ControlPlaneEndpoint c) \<noteq> []
         \<and> Port (Spec_ControlPlaneEndpoint c) \<noteq> 0
      then c\<lparr>Status_Phase := ''Provisioned''\<rparr> else c)"
  "phase_clause_Failed c =
     (if Status_FailureReason c \<noteq> None \<or> Status_FailureMessage c \<noteq> None
      then c\<lparr>Status_Phase := ''Failed''\<rparr> else c)"
  "phase_clause_Deleting c =
     (if \<not> Time_IsZero (DeletionTimestamp c) then c\<lparr>Status_Phase := ''Deleting''\<rparr> else c)"
  by (simp_all add: phase_clause_defs ClusterPhase_defs APIEndpoint_IsValid_def)

text \<open>
  C2. Each of the five clauses assigns its phase when its condition holds and leaves
  the Cluster as it is otherwise; the labeler runs them in the order Pending,
  Provisioning, Provisioned, Failed, Deleting, so that a later clause overrides an
  earlier one: the phase on return is that of the last clause whose condition holds,
  and the phase on entry when none holds. Hence a Cluster with both failure fields set
  and a deletion time stamp set ends in phase \<open>Deleting\<close>, not \<open>Failed\<close>.
\<close>

theorem reconcilePhase_order_Deleting_last:
  "phase_clause_Pending c =
     (if Status_Phase c = [] then c\<lparr>Status_Phase := ''Pending''\<rparr> else c)
   \<and> phase_clause_Provisioning c =
     (if Spec_InfrastructureRef c \<noteq> None then c\<lparr>Status_Phase := ''Provisioning''\<rparr> else c)
   \<and> phase_clause_Provisioned c =
     (if Status_InfrastructureReady c \<and> Host (Spec_ControlPlaneEndpoint c) \<noteq> []
         \<and> Port (Spec_ControlPlaneEndpoint c) \<noteq> 0
      then c\<lparr>Status_Phase := ''Provisioned''\<rparr> else c)
   \<and> phase_clause_Failed c =
     (if Status_FailureReason c \<noteq> None \<or> Status_FailureMessage c \<noteq> None
      then c\<lparr>Status_Phase := ''Failed''\<rparr> else c)
   \<and> phase_clause_Deleting c =
     (if \<not> Time_IsZero (DeletionTimestamp c) then c\<lparr>Status_Phase := ''Deleting''\<rparr> else c)
   \<and> reconcilePhase c =
     phase_clause_Deleting
       (phase_clause_Failed
         (phase_clause_Provisioned
           (phase_clause_Provisioning
             (phase_clause_Pending c))))
   \<and> reconcilePhase c =
     c\<lparr>Status_Phase :=
        (if \<not> Time_IsZero (DeletionTimestamp c) then ''Deleting''
         else if Status_FailureReason c \<noteq> None \<or> Status_FailureMessage c \<noteq> None
           then ''Failed''
         else if Status_InfrastructureReady c \<and> Host (Spec_ControlPlaneEndpoint c) \<noteq> []
                 \<and> Port (Spec_ControlPlaneEndpoint c) \<noteq> 0
           then ''Provisioned''
         else if Spec_InfrastructureRef c \<noteq> None then ''Provisioning''
         else if Status_Phase c = [] then ''Pending''
         else Status_Phase c)\<rparr>
   \<and> (Status_FailureReason c \<noteq> None \<and> Status_FailureMessage c \<noteq> None
        \<and> \<not> Time_IsZero (DeletionTimestamp c) \<longrightarrow>
      Status_Phase (reconcilePhase c) = ''Deleting''
      \<and> Status_Phase (reconcilePhase c) \<noteq> ''Failed'')"
proof (intro conjI)
  show "reconcilePhase c =
     phase_clause_Deleting
       (phase_clause_Failed
         (phase_clause_Provisioned
           (phase_clause_Provisioning
             (phase_clause_Pending c))))"
    by (rule reconcilePhase_def)
  show "Status_FailureReason c \<noteq> None \<and> Status_FailureMessage c \<noteq> None
        \<and> \<not> Time_IsZero (DeletionTimestamp c) \<longrightarrow>
      Status_Phase (reconcilePhase c) = ''Deleting''
      \<and> Status_Phase (reconcilePhase c) \<noteq> ''Failed''"
    by (simp add: reconcilePhase_value)
qed (rule phase_clause_eqs reconcilePhase_priority)+

theorem reconcilePhase_order_Deleting_last_witness:
  "Status_FailureReason failed_deleted_cluster \<noteq> None
   \<and> Status_FailureMessage failed_deleted_cluster \<noteq> None
   \<and> \<not> Time_IsZero (DeletionTimestamp failed_deleted_cluster)
   \<and> Status_Phase (reconcilePhase failed_deleted_cluster) = ''Deleting''
   \<and> Status_Phase (reconcilePhase previously_failed_cluster) = ''Failed''
   \<and> Status_Phase (reconcilePhase provisioned_cluster) = ''Provisioned''
   \<and> Status_Phase (reconcilePhase infra_cluster) = ''Provisioning''
   \<and> Status_Phase (reconcilePhase empty_cluster) = ''Pending''"
proof -
  note priority =
    reconcilePhase_order_Deleting_last [THEN conjunct2, THEN conjunct2, THEN conjunct2, THEN conjunct2, THEN conjunct2,
        THEN conjunct2, THEN conjunct1]
  note last =
    reconcilePhase_order_Deleting_last [THEN conjunct2, THEN conjunct2, THEN conjunct2, THEN conjunct2, THEN conjunct2,
        THEN conjunct2, THEN conjunct2]
  have d: "Status_FailureReason failed_deleted_cluster \<noteq> None
     \<and> Status_FailureMessage failed_deleted_cluster \<noteq> None
     \<and> \<not> Time_IsZero (DeletionTimestamp failed_deleted_cluster)"
    by (simp add: failed_deleted_cluster_def empty_cluster_def Time_IsZero_def)
  have "Status_Phase (reconcilePhase failed_deleted_cluster) = ''Deleting''"
    using last [of failed_deleted_cluster] d by simp
  moreover have "Status_Phase (reconcilePhase previously_failed_cluster) = ''Failed''"
    by (subst priority) (simp add: previously_failed_cluster_def
        infra_cluster_def empty_cluster_def Time_IsZero_def)
  moreover have "Status_Phase (reconcilePhase provisioned_cluster) = ''Provisioned''"
    by (subst priority) (simp add: provisioned_cluster_def
        infra_cluster_def empty_cluster_def Time_IsZero_def)
  moreover have "Status_Phase (reconcilePhase infra_cluster) = ''Provisioning''"
    by (subst priority) (simp add: infra_cluster_def empty_cluster_def
        Time_IsZero_def)
  moreover have "Status_Phase (reconcilePhase empty_cluster) = ''Pending''"
    by (subst priority) (simp add: empty_cluster_def Time_IsZero_def)
  ultimately show ?thesis using d by simp
qed

section \<open>Frame lemmas of the reconcilers\<close>

lemma set_ref_frame:
  "Name (set_ref c f r) = Name c"
  "Namespace (set_ref c f r) = Namespace c"
  "Annotations (set_ref c f r) = Annotations c"
  "DeletionTimestamp (set_ref c f r) = DeletionTimestamp c"
  "Spec_ControlPlaneEndpoint (set_ref c f r) = Spec_ControlPlaneEndpoint c"
  "Status_Phase (set_ref c f r) = Status_Phase c"
  "Status_InfrastructureReady (set_ref c f r) = Status_InfrastructureReady c"
  "Status_ControlPlaneReady (set_ref c f r) = Status_ControlPlaneReady c"
  "Status_ManagedExternalEtcdReady (set_ref c f r) = Status_ManagedExternalEtcdReady c"
  "Status_ManagedExternalEtcdInitialized (set_ref c f r) = Status_ManagedExternalEtcdInitialized c"
  "Status_FailureReason (set_ref c f r) = Status_FailureReason c"
  "Status_FailureMessage (set_ref c f r) = Status_FailureMessage c"
  "Status_Conditions (set_ref c f r) = Status_Conditions c"
  by (cases f; simp)+

lemma surface_failures_frame:
  assumes "surface_failures cluster obj = Inr cluster'"
  shows "Status_InfrastructureReady cluster' = Status_InfrastructureReady cluster"
    and "Status_ManagedExternalEtcdInitialized cluster' = Status_ManagedExternalEtcdInitialized cluster"
    and "Status_Conditions cluster' = Status_Conditions cluster"
    and "ref_of cluster' g = ref_of cluster g"
  using assms unfolding surface_failures_def Let_def
  by (cases g; auto split: sum.splits prod.splits if_splits)+

lemma reconcileExternal_frame:
  assumes "reconcileExternal w cluster f = (w', cluster', r)"
  shows "Status_InfrastructureReady cluster' = Status_InfrastructureReady cluster"
    and "Status_ManagedExternalEtcdInitialized cluster' = Status_ManagedExternalEtcdInitialized cluster"
    and "Status_Conditions cluster' = Status_Conditions cluster"
  using assms unfolding reconcileExternal_def Let_def
  by (auto split: option.splits sum.splits prod.splits if_splits
      simp: set_ref_frame dest: surface_failures_frame)

lemma reconcileExternal_refs:
  assumes "reconcileExternal w cluster f = (w', cluster', r)"
  shows "(ref_of cluster' g = None) = (ref_of cluster g = None)"
  using assms unfolding reconcileExternal_def Let_def
  by (cases f; cases g;
      auto split: option.splits sum.splits prod.splits if_splits
        dest: surface_failures_frame(4) [where g = g])

lemmas conditions_defs =
  conditions_SetMirror_def conditions_Set_def conditions_MarkTrue_def conditions_MarkFalse_def

lemma external_Get_world:
  "fst (external_Get w ref ns) = log_call (CallGet ref ns) w"
  unfolding external_Get_def Let_def
  by (simp split: option.split)

lemma SetControllerReference_frame:
  assumes "SetControllerReference cluster obj = Inr obj1"
  shows "obj_APIVersion obj1 = obj_APIVersion obj"
    and "obj_Kind obj1 = obj_Kind obj"
    and "obj_Name obj1 = obj_Name obj"
    and "obj_status_failureReason obj1 = obj_status_failureReason obj"
    and "obj_status_failureMessage obj1 = obj_status_failureMessage obj"
  using assms unfolding SetControllerReference_def
  by (auto split: if_splits option.splits)

lemma reconcileInfrastructure_no_ref:
  "Spec_InfrastructureRef cluster = None \<Longrightarrow>
   reconcileInfrastructure w cluster = (w, cluster, Result_zero, None)"
  by (simp add: reconcileInfrastructure_def)

lemma reconcileKubeconfig_cluster:
  "result_cluster (reconcileKubeconfig w cluster) = cluster"
  unfolding reconcileKubeconfig_def result_cluster_def
  by (simp split: option.split prod.split)

lemma reconcileEtcdCluster_InfrastructureReady:
  "Status_InfrastructureReady (result_cluster (reconcileEtcdCluster w cluster))
     = Status_InfrastructureReady cluster"
proof -
  obtain w1 c1 r where R: "reconcileExternal w cluster ManagedExternalEtcdRefField = (w1, c1, r)"
    by (metis prod_cases3)
  have F: "Status_InfrastructureReady c1 = Status_InfrastructureReady cluster"
    using reconcileExternal_frame(1) [OF R] .
  show ?thesis
    unfolding reconcileEtcdCluster_def latch_etcd_initialized_def Let_def result_cluster_def
    by (simp add: R F conditions_defs split: option.split sum.split prod.split)
qed

lemma reconcileEtcdCluster_InfrastructureRef:
  "(Spec_InfrastructureRef (result_cluster (reconcileEtcdCluster w cluster)) = None)
     = (Spec_InfrastructureRef cluster = None)"
proof -
  obtain w1 c1 r where R: "reconcileExternal w cluster ManagedExternalEtcdRefField = (w1, c1, r)"
    by (metis prod_cases3)
  have F: "(Spec_InfrastructureRef c1 = None) = (Spec_InfrastructureRef cluster = None)"
    using reconcileExternal_refs [OF R, of InfrastructureRefField] by simp
  show ?thesis
    unfolding reconcileEtcdCluster_def latch_etcd_initialized_def Let_def result_cluster_def
    by (simp add: R F conditions_defs split: option.split sum.split prod.split)
qed

lemma reconcileControlPlane_InfrastructureReady:
  "Status_InfrastructureReady (result_cluster (reconcileControlPlane w cluster))
     = Status_InfrastructureReady cluster"
proof -
  obtain w0 g where G: "pause_control_plane w cluster = (w0, g)"
    by (metis prod.exhaust)
  obtain w1 c1 r where R: "reconcileExternal w0 cluster ControlPlaneRefField = (w1, c1, r)"
    by (metis prod_cases3)
  have F: "Status_InfrastructureReady c1 = Status_InfrastructureReady cluster"
    using reconcileExternal_frame(1) [OF R] .
  show ?thesis
    unfolding reconcileControlPlane_def Let_def result_cluster_def
    by (simp add: G R F conditions_defs split: option.split sum.split prod.split)
qed

lemma reconcileControlPlane_InfrastructureRef:
  "(Spec_InfrastructureRef (result_cluster (reconcileControlPlane w cluster)) = None)
     = (Spec_InfrastructureRef cluster = None)"
proof -
  obtain w0 g where G: "pause_control_plane w cluster = (w0, g)"
    by (metis prod.exhaust)
  obtain w1 c1 r where R: "reconcileExternal w0 cluster ControlPlaneRefField = (w1, c1, r)"
    by (metis prod_cases3)
  have F: "(Spec_InfrastructureRef c1 = None) = (Spec_InfrastructureRef cluster = None)"
    using reconcileExternal_refs [OF R, of InfrastructureRefField] by simp
  show ?thesis
    unfolding reconcileControlPlane_def Let_def result_cluster_def
    by (simp add: G R F conditions_defs split: option.split sum.split prod.split)
qed

lemma reconcileInfrastructure_EtcdInitialized:
  "Status_ManagedExternalEtcdInitialized (result_cluster (reconcileInfrastructure w cluster))
     = Status_ManagedExternalEtcdInitialized cluster"
proof -
  obtain w1 c1 r where R: "reconcileExternal w cluster InfrastructureRefField = (w1, c1, r)"
    by (metis prod_cases3)
  have F: "Status_ManagedExternalEtcdInitialized c1 = Status_ManagedExternalEtcdInitialized cluster"
    using reconcileExternal_frame(2) [OF R] .
  show ?thesis
    unfolding reconcileInfrastructure_def Let_def result_cluster_def
    by (simp add: R F conditions_defs split: option.split sum.split prod.split)
qed

lemma reconcileControlPlane_EtcdInitialized:
  "Status_ManagedExternalEtcdInitialized (result_cluster (reconcileControlPlane w cluster))
     = Status_ManagedExternalEtcdInitialized cluster"
proof -
  obtain w0 g where G: "pause_control_plane w cluster = (w0, g)"
    by (metis prod.exhaust)
  obtain w1 c1 r where R: "reconcileExternal w0 cluster ControlPlaneRefField = (w1, c1, r)"
    by (metis prod_cases3)
  have F: "Status_ManagedExternalEtcdInitialized c1 = Status_ManagedExternalEtcdInitialized cluster"
    using reconcileExternal_frame(2) [OF R] .
  show ?thesis
    unfolding reconcileControlPlane_def Let_def result_cluster_def
    by (simp add: G R F conditions_defs split: option.split sum.split prod.split)
qed

lemma latch_etcd_initialized_mono:
  "Status_ManagedExternalEtcdInitialized cluster \<Longrightarrow>
   Status_ManagedExternalEtcdInitialized (fst (latch_etcd_initialized cluster obj))"
  unfolding latch_etcd_initialized_def
  by (simp add: conditions_defs split: sum.split)

lemma latch_etcd_initialized_IsTrue:
  "conditions_IsTrue cluster ManagedExternalEtcdClusterInitializedCondition \<Longrightarrow>
   conditions_IsTrue (fst (latch_etcd_initialized cluster obj))
     ManagedExternalEtcdClusterInitializedCondition"
  unfolding latch_etcd_initialized_def
  by simp

lemma SetMirror_other_condition:
  "t \<noteq> t' \<Longrightarrow>
   conditions_IsTrue (conditions_SetMirror c t obj b reason severity msg) t'
     = conditions_IsTrue c t'"
  by (simp add: conditions_defs conditions_IsTrue_def split: option.split)

lemma reconcileEtcdCluster_EtcdInitialized:
  assumes "Status_ManagedExternalEtcdInitialized cluster"
  shows "Status_ManagedExternalEtcdInitialized (result_cluster (reconcileEtcdCluster w cluster))"
proof -
  obtain w1 c1 r where R: "reconcileExternal w cluster ManagedExternalEtcdRefField = (w1, c1, r)"
    by (metis prod_cases3)
  have F: "Status_ManagedExternalEtcdInitialized c1"
    using reconcileExternal_frame(2) [OF R] assms by simp
  show ?thesis
    unfolding reconcileEtcdCluster_def Let_def result_cluster_def
    by (simp add: R F assms latch_etcd_initialized_mono conditions_defs split_beta
        split: option.split sum.split prod.split)
qed

lemma reconcileEtcdCluster_IsTrue:
  assumes "conditions_IsTrue cluster ManagedExternalEtcdClusterInitializedCondition"
  shows "conditions_IsTrue (result_cluster (reconcileEtcdCluster w cluster))
           ManagedExternalEtcdClusterInitializedCondition"
proof -
  obtain w1 c1 r where R: "reconcileExternal w cluster ManagedExternalEtcdRefField = (w1, c1, r)"
    by (metis prod_cases3)
  have F: "conditions_IsTrue c1 ManagedExternalEtcdClusterInitializedCondition"
    using reconcileExternal_frame(3) [OF R] assms by (simp add: conditions_IsTrue_def)
  have U: "conditions_IsTrue (c1\<lparr>Status_ManagedExternalEtcdReady := b\<rparr>)
             ManagedExternalEtcdClusterInitializedCondition" for b
    using F by (simp add: conditions_IsTrue_def)
  have N: "ManagedExternalEtcdClusterReadyCondition \<noteq> ManagedExternalEtcdClusterInitializedCondition"
    by (simp add: ManagedExternalEtcdClusterReadyCondition_def
        ManagedExternalEtcdClusterInitializedCondition_def)
  show ?thesis
    unfolding reconcileEtcdCluster_def Let_def result_cluster_def
    by (simp add: R F U assms latch_etcd_initialized_IsTrue SetMirror_other_condition [OF N]
        split_beta split: option.split sum.split prod.split)
qed

section \<open>Evaluating the reconcilers\<close>

lemmas reconciler_defs =
  reconcileExternal_def surface_failures_def failure_citation_def reconcileEtcdCluster_def reconcileControlPlane_def
  reconcileInfrastructure_def pause_control_plane_def resume_control_plane_def
  latch_etcd_initialized_def external_Get_def Client_Update_def patch_NewHelper_def
  patchHelper_Patch_def externalTracker_Watch_def UpdateReferenceAPIContract_def log_call_def
  key_of_def ref_key_def annotations_IsPaused_def annotations_HasPausedAnnotation_def
  PausedAnnotation_def ClusterLabelName_def SetControllerReference_def
  cluster_OwnerReference_def referSameObject_def external_IsReady_def
  external_IsInitialized_def external_FailuresFrom_def NestedString_def
  UnstructuredUnmarshalField_def conditions_defs conditions_IsTrue_def TrueCondition_def
  FalseCondition_def ReconcileOutput_zero_def Result_zero_def Second_def Time_IsZero_def
  result_world_def result_cluster_def result_Result_def result_error_def
  ext_world_def ext_cluster_def ext_output_def reconciled_to_end_def

lemmas sample_defs =
  server_with_def object_for_def infra_ref_def cp_ref_def etcd_ref_def empty_cluster_def
  etcd_only_cluster_def ready_etcd_server_def etcd_cp_cluster_def annotated_control_plane_def
  unready_etcd_server_def stale_ready_cluster_def infra_cluster_def failed_infra_def
  paused_infra_def failing_read_server_def initialized_cluster_def regressed_etcd_def
  regressed_etcd_server_def previously_failed_cluster_def healthy_infra_def

section \<open>Properties of the etcd and control-plane sub-reconcilers\<close>

lemma resume_control_plane_nil_ref:
  "Spec_ControlPlaneRef cluster = None \<Longrightarrow>
   resume_control_plane w cluster
     = (log_call (CallGet None (Namespace cluster)) w, Some (Result_zero, Some ErrNilReference))"
  by (simp add: resume_control_plane_def external_Get_def)

text \<open>
  C3 (the code departs from the spec). The spec: the control-plane object is fetched
  only when \<^verbatim>\<open>spec.controlPlaneRef\<close> is set, so that with an etcd reference, no
  control-plane reference and a ready etcd object the etcd sub-reconciler completes
  without that fetch and without error. The source fetches whenever the etcd object is
  ready: on such a Cluster \<^verbatim>\<open>external.Get\<close> is called with the nil reference and the
  sub-reconciler returns its error.
\<close>

theorem reconcileEtcdCluster_fetches_nil_controlPlaneRef:
  "Spec_ManagedExternalEtcdRef etcd_only_cluster = Some etcd_ref
   \<and> Spec_ControlPlaneRef etcd_only_cluster = None
   \<and> map_option external_IsReady (objects ready_etcd_server (ref_key etcd_ref ''default''))
        = Some (Inr True)
   \<and> CallGet None ''default''
        \<in> set (calls (result_world (reconcileEtcdCluster ready_etcd_server etcd_only_cluster)))
   \<and> result_error (reconcileEtcdCluster ready_etcd_server etcd_only_cluster)
        = Some ErrNilReference"
  by (simp add: reconciler_defs sample_defs Let_def)

text \<open>
  C4 (the code departs from the spec). The spec: pausing adds the paused annotation
  by a full update, and every other annotation of the control-plane object remains.
  The source replaces the whole annotation map before the update: a control-plane
  object stored with the annotation \<open>example.com/owner\<close> is stored, after the
  sub-reconciler has run without error, with the paused annotation and without
  \<open>example.com/owner\<close>.
\<close>

theorem reconcileControlPlane_pause_drops_annotations:
  "objects unready_etcd_server (key_of annotated_control_plane) = Some annotated_control_plane
   \<and> obj_Annotations annotated_control_plane ''example.com/owner'' = Some ''team-a''
   \<and> result_error (reconcileControlPlane unready_etcd_server etcd_cp_cluster) = None
   \<and> CallUpdate (key_of annotated_control_plane)
        \<in> set (calls (result_world (reconcileControlPlane unready_etcd_server etcd_cp_cluster)))
   \<and> map_option (\<lambda>obj. obj_Annotations obj PausedAnnotation)
        (objects (result_world (reconcileControlPlane unready_etcd_server etcd_cp_cluster))
           (key_of annotated_control_plane)) = Some (Some ''true'')
   \<and> map_option (\<lambda>obj. obj_Annotations obj ''example.com/owner'')
        (objects (result_world (reconcileControlPlane unready_etcd_server etcd_cp_cluster))
           (key_of annotated_control_plane)) = Some None"
  by (simp add: reconciler_defs sample_defs Let_def)

text \<open>
  C7. Once \<^verbatim>\<open>status.managedExternalEtcdInitialized\<close> is true, every sub-reconciler
  and the phase labeler leave it true; and while the \<open>ManagedEtcdInitialized\<close>
  condition is True the latch returns the Cluster as it is whatever the etcd object
  reports in \<^verbatim>\<open>status.initialized\<close>, and the etcd sub-reconciler leaves the
  condition True.
\<close>

theorem ManagedExternalEtcdInitialized_never_reset:
  "(Status_ManagedExternalEtcdInitialized cluster \<longrightarrow>
      Status_ManagedExternalEtcdInitialized (result_cluster (reconcileInfrastructure w cluster))
      \<and> Status_ManagedExternalEtcdInitialized (result_cluster (reconcileEtcdCluster w cluster))
      \<and> Status_ManagedExternalEtcdInitialized (result_cluster (reconcileControlPlane w cluster))
      \<and> Status_ManagedExternalEtcdInitialized (result_cluster (reconcileKubeconfig w cluster))
      \<and> Status_ManagedExternalEtcdInitialized (reconcilePhase cluster))
   \<and> (conditions_IsTrue cluster ManagedExternalEtcdClusterInitializedCondition \<longrightarrow>
        latch_etcd_initialized cluster etcdPlaneConfig = (cluster, None)
        \<and> conditions_IsTrue (result_cluster (reconcileEtcdCluster w cluster))
             ManagedExternalEtcdClusterInitializedCondition)"
  by (simp add: reconcileInfrastructure_EtcdInitialized reconcileEtcdCluster_EtcdInitialized
      reconcileControlPlane_EtcdInitialized reconcileKubeconfig_cluster reconcilePhase_frame
      reconcileEtcdCluster_IsTrue latch_etcd_initialized_def)

theorem ManagedExternalEtcdInitialized_never_reset_witness:
  "Status_ManagedExternalEtcdInitialized initialized_cluster
   \<and> external_IsInitialized regressed_etcd = Inr False
   \<and> Status_ManagedExternalEtcdInitialized
        (result_cluster (reconcileEtcdCluster regressed_etcd_server initialized_cluster))
   \<and> conditions_IsTrue initialized_cluster ManagedExternalEtcdClusterInitializedCondition
   \<and> latch_etcd_initialized initialized_cluster regressed_etcd = (initialized_cluster, None)"
  using ManagedExternalEtcdInitialized_never_reset
    [of initialized_cluster regressed_etcd_server regressed_etcd]
  by (simp add: initialized_cluster_def etcd_cp_cluster_def empty_cluster_def
      regressed_etcd_def object_for_def external_IsInitialized_def conditions_IsTrue_def
      TrueCondition_def)

section \<open>Properties of the infrastructure sub-reconciler\<close>

text \<open>
  C5 (as stated, refuted). A Cluster without infrastructure reference whose
  \<^verbatim>\<open>status.infrastructureReady\<close> is true on entry: every sub-reconciler returns it
  unchanged and the phase labeler leaves the flag true.
\<close>

theorem InfrastructureReady_stale_counterexample:
  "Spec_InfrastructureRef stale_ready_cluster = None
   \<and> reconcileInfrastructure (server_with []) stale_ready_cluster
        = (server_with [], stale_ready_cluster, Result_zero, None)
   \<and> reconcileEtcdCluster (server_with []) stale_ready_cluster
        = (server_with [], stale_ready_cluster, Result_zero, None)
   \<and> reconcileControlPlane (server_with []) stale_ready_cluster
        = (server_with [], stale_ready_cluster, Result_zero, None)
   \<and> reconcileKubeconfig (server_with []) stale_ready_cluster
        = (server_with [], stale_ready_cluster, Result_zero, None)
   \<and> Status_InfrastructureReady (reconcilePhase stale_ready_cluster)"
  by (simp add: reconcileInfrastructure_def reconcileEtcdCluster_def reconcileControlPlane_def
      reconcileKubeconfig_def stale_ready_cluster_def empty_cluster_def reconcilePhase_frame
      APIEndpoint_IsValid_def)

text \<open>
  C5 (amended). For a Cluster without infrastructure reference the infrastructure
  sub-reconciler returns at once and changes nothing, and neither the other
  sub-reconcilers nor the phase labeler write \<^verbatim>\<open>status.infrastructureReady\<close> or set
  the reference: after a reconcile the flag has the value it had on entry (false if
  it was false).
\<close>

theorem InfrastructureReady_unchanged_without_ref:
  "Spec_InfrastructureRef cluster = None \<longrightarrow>
     reconcileInfrastructure w cluster = (w, cluster, Result_zero, None)
     \<and> Status_InfrastructureReady (result_cluster (reconcileEtcdCluster w cluster))
         = Status_InfrastructureReady cluster
     \<and> Spec_InfrastructureRef (result_cluster (reconcileEtcdCluster w cluster)) = None
     \<and> Status_InfrastructureReady (result_cluster (reconcileControlPlane w cluster))
         = Status_InfrastructureReady cluster
     \<and> Spec_InfrastructureRef (result_cluster (reconcileControlPlane w cluster)) = None
     \<and> result_cluster (reconcileKubeconfig w cluster) = cluster
     \<and> Status_InfrastructureReady (reconcilePhase cluster) = Status_InfrastructureReady cluster
     \<and> Spec_InfrastructureRef (reconcilePhase cluster) = None"
  by (simp add: reconcileInfrastructure_no_ref reconcileEtcdCluster_InfrastructureReady
      reconcileEtcdCluster_InfrastructureRef reconcileControlPlane_InfrastructureReady
      reconcileControlPlane_InfrastructureRef reconcileKubeconfig_cluster reconcilePhase_frame
      reconcilePhase_def phase_clause_defs)

theorem InfrastructureReady_unchanged_without_ref_witness:
  "Spec_InfrastructureRef etcd_cp_cluster = None
   \<and> \<not> Status_InfrastructureReady etcd_cp_cluster
   \<and> \<not> Status_InfrastructureReady
          (result_cluster (reconcileControlPlane unready_etcd_server etcd_cp_cluster))
   \<and> \<not> Status_InfrastructureReady
          (result_cluster (reconcileEtcdCluster unready_etcd_server etcd_cp_cluster))
   \<and> \<not> Status_InfrastructureReady (reconcilePhase etcd_cp_cluster)"
  using InfrastructureReady_unchanged_without_ref [of etcd_cp_cluster unready_etcd_server]
  by (simp add: etcd_cp_cluster_def empty_cluster_def)

section \<open>Properties of the external reconciler\<close>

text \<open>
  C8. When the conversion step has succeeded and the object has been fetched, and the
  Cluster or the fetched object carries the paused annotation, \<^verbatim>\<open>reconcileExternal\<close>
  returns the output with \<^verbatim>\<open>Paused\<close> set and no error; the stored objects and the
  watches are as before, the only call made is the fetch, and the Cluster is the one
  on entry with the reference as rewritten by the conversion step: its failure
  fields are not written.
\<close>

theorem reconcileExternal_paused_no_mutation:
  "ref_of cluster f = Some ref0 \<and> UpdateReferenceAPIContract w ref0 = Inr ref
   \<and> snd (external_Get w (Some ref) (Namespace cluster)) = Inr obj
   \<and> (Annotations cluster PausedAnnotation \<noteq> None
        \<or> obj_Annotations obj PausedAnnotation \<noteq> None)
   \<longrightarrow>
   ext_output (reconcileExternal w cluster f)
     = Inr \<lparr>out_RequeueAfter = 0, out_Paused = True, out_Result = None\<rparr>
   \<and> objects (ext_world (reconcileExternal w cluster f)) = objects w
   \<and> watched (ext_world (reconcileExternal w cluster f)) = watched w
   \<and> calls (ext_world (reconcileExternal w cluster f))
        = calls w @ [CallGet (Some ref) (Namespace cluster)]
   \<and> ext_cluster (reconcileExternal w cluster f) = set_ref cluster f ref
   \<and> Status_FailureReason (ext_cluster (reconcileExternal w cluster f))
        = Status_FailureReason cluster
   \<and> Status_FailureMessage (ext_cluster (reconcileExternal w cluster f))
        = Status_FailureMessage cluster"
proof (intro impI, elim conjE)
  assume a: "ref_of cluster f = Some ref0" "UpdateReferenceAPIContract w ref0 = Inr ref"
    "snd (external_Get w (Some ref) (Namespace cluster)) = Inr obj"
    "Annotations cluster PausedAnnotation \<noteq> None \<or> obj_Annotations obj PausedAnnotation \<noteq> None"
  have g: "external_Get w (Some ref) (Namespace cluster)
             = (log_call (CallGet (Some ref) (Namespace cluster)) w, Inr obj)"
    using a(3) external_Get_world [of w "Some ref" "Namespace cluster"]
    by (simp add: prod_eq_iff)
  have p: "annotations_IsPaused (set_ref cluster f ref) obj"
    using a(4) by (simp add: annotations_IsPaused_def annotations_HasPausedAnnotation_def
        set_ref_frame)
  have r: "reconcileExternal w cluster f
             = (log_call (CallGet (Some ref) (Namespace cluster)) w, set_ref cluster f ref,
                Inr (ReconcileOutput_zero\<lparr>out_Paused := True\<rparr>))"
    unfolding reconcileExternal_def Let_def
    by (simp add: a(1,2) g p set_ref_frame)
  show "ext_output (reconcileExternal w cluster f)
     = Inr \<lparr>out_RequeueAfter = 0, out_Paused = True, out_Result = None\<rparr>
   \<and> objects (ext_world (reconcileExternal w cluster f)) = objects w
   \<and> watched (ext_world (reconcileExternal w cluster f)) = watched w
   \<and> calls (ext_world (reconcileExternal w cluster f))
        = calls w @ [CallGet (Some ref) (Namespace cluster)]
   \<and> ext_cluster (reconcileExternal w cluster f) = set_ref cluster f ref
   \<and> Status_FailureReason (ext_cluster (reconcileExternal w cluster f))
        = Status_FailureReason cluster
   \<and> Status_FailureMessage (ext_cluster (reconcileExternal w cluster f))
        = Status_FailureMessage cluster"
    by (simp add: r ext_output_def ext_world_def ext_cluster_def log_call_def
        ReconcileOutput_zero_def set_ref_frame)
qed

theorem reconcileExternal_paused_no_mutation_witness:
  "obj_Annotations paused_infra PausedAnnotation \<noteq> None
   \<and> ext_output (reconcileExternal (server_with [paused_infra]) infra_cluster
                   InfrastructureRefField)
       = Inr \<lparr>out_RequeueAfter = 0, out_Paused = True, out_Result = None\<rparr>
   \<and> objects (ext_world (reconcileExternal (server_with [paused_infra]) infra_cluster
                            InfrastructureRefField))
       = objects (server_with [paused_infra])
   \<and> Status_FailureReason (ext_cluster (reconcileExternal (server_with [paused_infra])
                                           infra_cluster InfrastructureRefField)) = None"
  using reconcileExternal_paused_no_mutation
    [of infra_cluster InfrastructureRefField infra_ref "server_with [paused_infra]" infra_ref
        paused_infra]
  by (simp add: reconciler_defs sample_defs Let_def)

text \<open>
  C9. When the conversion step has succeeded and the fetch fails: a not-found error
  gives the output \<^verbatim>\<open>{RequeueAfter: 30s}\<close> with a nil error, any other error is
  returned as the error.
\<close>

theorem reconcileExternal_fetch_failure:
  "ref_of cluster f = Some ref0 \<and> UpdateReferenceAPIContract w ref0 = Inr ref
   \<and> snd (external_Get w (Some ref) (Namespace cluster)) = Inl e \<longrightarrow>
   ext_output (reconcileExternal w cluster f) =
     (if e = ErrNotFound
      then Inr \<lparr>out_RequeueAfter = 30 * Second, out_Paused = False, out_Result = None\<rparr>
      else Inl e)"
  unfolding reconcileExternal_def Let_def ext_output_def
  by (auto simp: set_ref_frame ReconcileOutput_zero_def split: prod.split)

theorem reconcileExternal_fetch_failure_witness:
  "ref_of infra_cluster InfrastructureRefField = Some infra_ref
   \<and> snd (external_Get (server_with []) (Some infra_ref) ''default'') = Inl ErrNotFound
   \<and> ext_output (reconcileExternal (server_with []) infra_cluster InfrastructureRefField)
       = Inr \<lparr>out_RequeueAfter = 30000000000, out_Paused = False, out_Result = None\<rparr>
   \<and> snd (external_Get failing_read_server (Some infra_ref) ''default'')
       = Inl (ErrAPI ''timeout'')
   \<and> ext_output (reconcileExternal failing_read_server infra_cluster InfrastructureRefField)
       = Inl (ErrAPI ''timeout'')"
  using reconcileExternal_fetch_failure
    [of infra_cluster InfrastructureRefField infra_ref "server_with []" infra_ref ErrNotFound]
    reconcileExternal_fetch_failure
    [of infra_cluster InfrastructureRefField infra_ref failing_read_server infra_ref
        "ErrAPI ''timeout''"]
  by (simp add: reconciler_defs sample_defs Let_def)

text \<open>
  C10. When \<^verbatim>\<open>reconcileExternal\<close> has run to its end on the fetched object: a
  non-empty \<^verbatim>\<open>status.failureReason\<close> of the object is the Cluster's failure reason,
  a non-empty \<^verbatim>\<open>status.failureMessage\<close> is the Cluster's failure message behind the
  citation of the object's kind and name, and an empty or missing one leaves the
  Cluster's field as it was.
\<close>

theorem reconcileExternal_surfaces_failures:
  "ref_of cluster f = Some ref0 \<and> UpdateReferenceAPIContract w ref0 = Inr ref
   \<and> snd (external_Get w (Some ref) (Namespace cluster)) = Inr obj
   \<and> reconciled_to_end (ext_output (reconcileExternal w cluster f))
   \<longrightarrow>
   (\<exists>failureReason failureMessage.
      external_FailuresFrom obj = Inr (failureReason, failureMessage)
      \<and> (case obj_status_failureReason obj of
            Absent \<Rightarrow> failureReason = [] | Present s \<Rightarrow> failureReason = s
          | Malformed \<Rightarrow> False)
      \<and> (case obj_status_failureMessage obj of
            Absent \<Rightarrow> failureMessage = [] | Present s \<Rightarrow> failureMessage = s
          | Malformed \<Rightarrow> False)
      \<and> Status_FailureReason (ext_cluster (reconcileExternal w cluster f)) =
          (if failureReason \<noteq> [] then Some failureReason else Status_FailureReason cluster)
      \<and> Status_FailureMessage (ext_cluster (reconcileExternal w cluster f)) =
          (if failureMessage \<noteq> []
           then Some (''Failure detected from referenced resource ''
                        @ GroupVersionKind_String (obj_GroupVersionKind obj)
                        @ '' with name '' @ go_quote (obj_Name obj) @ '': ''
                        @ failureMessage)
           else Status_FailureMessage cluster))"
proof (intro impI, elim conjE)
  assume a: "ref_of cluster f = Some ref0" "UpdateReferenceAPIContract w ref0 = Inr ref"
    "snd (external_Get w (Some ref) (Namespace cluster)) = Inr obj"
    "reconciled_to_end (ext_output (reconcileExternal w cluster f))"
  let ?c1 = "set_ref cluster f ref"
  let ?w1 = "log_call (CallGet (Some ref) (Namespace cluster)) w"
  have g: "external_Get w (Some ref) (Namespace cluster) = (?w1, Inr obj)"
    using a(3) external_Get_world [of w "Some ref" "Namespace cluster"]
    by (simp add: prod_eq_iff)
  from a(4) obtain obj1 where
    s: "SetControllerReference ?c1 obj = Inr obj1"
    and sf: "surface_failures ?c1
          (obj1\<lparr>obj_Labels := (obj_Labels obj1)(ClusterLabelName \<mapsto> Name ?c1)\<rparr>)
        = Inr (ext_cluster (reconcileExternal w cluster f))"
    unfolding reconcileExternal_def Let_def reconciled_to_end_def ext_output_def ext_cluster_def
    by (auto simp: a(1,2) g set_ref_frame ReconcileOutput_zero_def
        split: if_splits option.splits sum.splits prod.splits)
  from sf obtain fr fm where
    ff: "external_FailuresFrom
          (obj1\<lparr>obj_Labels := (obj_Labels obj1)(ClusterLabelName \<mapsto> Name ?c1)\<rparr>) = Inr (fr, fm)"
    and c': "ext_cluster (reconcileExternal w cluster f) =
         (let cluster2 = (if fr \<noteq> [] then ?c1\<lparr>Status_FailureReason := Some fr\<rparr> else ?c1)
          in if fm \<noteq> []
             then cluster2\<lparr>Status_FailureMessage :=
                    Some (failure_citation
                      (obj1\<lparr>obj_Labels := (obj_Labels obj1)(ClusterLabelName \<mapsto> Name ?c1)\<rparr>) @ fm)\<rparr>
             else cluster2)"
    unfolding surface_failures_def
    by (auto simp: Let_def split: sum.splits prod.splits)
  note fr = SetControllerReference_frame [OF s]
  have ff': "external_FailuresFrom obj = Inr (fr, fm)"
    using ff by (auto simp: external_FailuresFrom_def fr split: sum.splits)
  have fields:
    "(case obj_status_failureReason obj of
        Absent \<Rightarrow> fr = [] | Present s \<Rightarrow> fr = s | Malformed \<Rightarrow> False)
     \<and> (case obj_status_failureMessage obj of
          Absent \<Rightarrow> fm = [] | Present s \<Rightarrow> fm = s | Malformed \<Rightarrow> False)"
    using ff' by (auto simp: external_FailuresFrom_def NestedString_def
        split: sum.splits field.splits)
  have cit: "failure_citation (obj1\<lparr>obj_Labels := L\<rparr>)
      = ''Failure detected from referenced resource ''
          @ GroupVersionKind_String (obj_GroupVersionKind obj)
          @ '' with name '' @ go_quote (obj_Name obj) @ '': ''" for L
    by (simp add: failure_citation_def obj_GroupVersionKind_def fr split: sum.split prod.split)
  show "\<exists>failureReason failureMessage.
      external_FailuresFrom obj = Inr (failureReason, failureMessage)
      \<and> (case obj_status_failureReason obj of
            Absent \<Rightarrow> failureReason = [] | Present s \<Rightarrow> failureReason = s
          | Malformed \<Rightarrow> False)
      \<and> (case obj_status_failureMessage obj of
            Absent \<Rightarrow> failureMessage = [] | Present s \<Rightarrow> failureMessage = s
          | Malformed \<Rightarrow> False)
      \<and> Status_FailureReason (ext_cluster (reconcileExternal w cluster f)) =
          (if failureReason \<noteq> [] then Some failureReason else Status_FailureReason cluster)
      \<and> Status_FailureMessage (ext_cluster (reconcileExternal w cluster f)) =
          (if failureMessage \<noteq> []
           then Some (''Failure detected from referenced resource ''
                        @ GroupVersionKind_String (obj_GroupVersionKind obj)
                        @ '' with name '' @ go_quote (obj_Name obj) @ '': ''
                        @ failureMessage)
           else Status_FailureMessage cluster)"
    using ff' fields by (simp add: c' cit set_ref_frame Let_def)
qed

theorem reconcileExternal_surfaces_failures_witness:
  "reconciled_to_end
     (ext_output (reconcileExternal (server_with [failed_infra]) infra_cluster
                    InfrastructureRefField))
   \<and> Status_FailureReason
        (ext_cluster (reconcileExternal (server_with [failed_infra]) infra_cluster
                        InfrastructureRefField)) = Some ''InvalidImage''
   \<and> Status_FailureMessage
        (ext_cluster (reconcileExternal (server_with [failed_infra]) infra_cluster
                        InfrastructureRefField))
       = Some (''Failure detected from referenced resource ''
                 @ ''infrastructure.cluster.x-k8s.io/v1beta1, Kind=Foo''
                 @ '' with name '' @ [CHR 0x22] @ ''foo1'' @ [CHR 0x22] @ '': not found'')
   \<and> external_FailuresFrom healthy_infra = Inr ([], [])
   \<and> Status_FailureReason
        (ext_cluster (reconcileExternal (server_with [healthy_infra]) previously_failed_cluster
                        InfrastructureRefField)) = Some ''InvalidImage''
   \<and> Status_FailureMessage
        (ext_cluster (reconcileExternal (server_with [healthy_infra]) previously_failed_cluster
                        InfrastructureRefField)) = Some ''earlier message''"
  using reconcileExternal_surfaces_failures
    [of infra_cluster InfrastructureRefField infra_ref "server_with [failed_infra]" infra_ref
        failed_infra]
    reconcileExternal_surfaces_failures
    [of previously_failed_cluster InfrastructureRefField infra_ref "server_with [healthy_infra]"
        infra_ref healthy_infra]
  by (simp add: reconciler_defs sample_defs Let_def ParseGroupVersion_def
      GroupVersionKind_String_def obj_GroupVersionKind_def go_quote_def quote_char_def)

section \<open>Properties of the resource enumerator\<close>

lemma listObjByGVK_sound:
  "listObjByGVK m gv k L ns = Inr items \<Longrightarrow> obj \<in> set items \<Longrightarrow>
   obj_APIVersion obj = gv \<and> obj_Kind obj = k"
  unfolding listObjByGVK_def
  by (auto split: option.splits if_splits)

lemma listObjByGVK_complete:
  "listObjByGVK m gv k L ns = Inr items \<Longrightarrow> mgmt_list_faults m (gv, k) = None \<Longrightarrow>
   obj \<in> set (mgmt_objects m) \<Longrightarrow> obj_APIVersion obj = gv \<Longrightarrow> obj_Kind obj = k \<Longrightarrow>
   MatchingLabels L obj \<Longrightarrow> InNamespace ns obj \<Longrightarrow> obj \<in> set items"
  unfolding listObjByGVK_def
  by auto

lemma list_in_namespaces_sound:
  "list_in_namespaces m gv k L nss = Inr items \<Longrightarrow> obj \<in> set items \<Longrightarrow>
   obj_APIVersion obj = gv \<and> obj_Kind obj = k"
proof (induction nss arbitrary: items)
  case Nil
  then show ?case by simp
next
  case (Cons ns nss)
  then show ?case
    by (auto split: sum.splits dest: listObjByGVK_sound)
qed

lemma list_in_namespaces_complete:
  "list_in_namespaces m gv k L nss = Inr items \<Longrightarrow> mgmt_list_faults m (gv, k) = None \<Longrightarrow>
   obj \<in> set (mgmt_objects m) \<Longrightarrow> obj_APIVersion obj = gv \<Longrightarrow> obj_Kind obj = k \<Longrightarrow>
   MatchingLabels L obj \<Longrightarrow> ns \<in> set nss \<Longrightarrow> InNamespace (Some ns) obj \<Longrightarrow> obj \<in> set items"
proof (induction nss arbitrary: items)
  case Nil
  then show ?case by simp
next
  case (Cons n nss)
  then show ?case
    by (auto split: sum.splits dest: listObjByGVK_complete)
qed

lemma list_resourceKind_sound:
  "list_resourceKind m L nss excl gv r = Inr items \<Longrightarrow> obj \<in> set items \<Longrightarrow>
   GroupVersionKind_String (obj_GroupVersionKind obj) \<notin> set excl"
  unfolding list_resourceKind_def obj_GroupVersionKind_def
  by (auto split: sum.splits if_splits prod.splits
      dest: listObjByGVK_sound list_in_namespaces_sound)

lemma list_resourceKind_complete:
  "list_resourceKind m L nss excl gv r = Inr items \<Longrightarrow>
   \<not> is_extensions_alias gv r \<Longrightarrow>
   mgmt_list_faults m (gv, res_Kind r) = None \<Longrightarrow>
   obj \<in> set (mgmt_objects m) \<Longrightarrow> obj_APIVersion obj = gv \<Longrightarrow> obj_Kind obj = res_Kind r \<Longrightarrow>
   GroupVersionKind_String (obj_GroupVersionKind obj) \<notin> set excl \<Longrightarrow>
   MatchingLabels L obj \<Longrightarrow>
   (res_Namespaced r \<longrightarrow> (\<exists>ns \<in> set nss. InNamespace (Some ns) obj)) \<Longrightarrow>
   obj \<in> set items"
  unfolding list_resourceKind_def obj_GroupVersionKind_def
  by (auto split: sum.splits if_splits prod.splits
      dest: listObjByGVK_complete list_in_namespaces_complete simp: InNamespace_def)

lemma list_resourceKinds_sound:
  "list_resourceKinds m L nss excl gv rs = Inr items \<Longrightarrow> obj \<in> set items \<Longrightarrow>
   GroupVersionKind_String (obj_GroupVersionKind obj) \<notin> set excl"
proof (induction rs arbitrary: items)
  case Nil
  then show ?case by simp
next
  case (Cons r rs)
  then show ?case
    by (auto split: sum.splits dest: list_resourceKind_sound)
qed

lemma list_resourceKinds_complete:
  "list_resourceKinds m L nss excl gv rs = Inr items \<Longrightarrow> r \<in> set rs \<Longrightarrow>
   \<not> is_extensions_alias gv r \<Longrightarrow>
   mgmt_list_faults m (gv, res_Kind r) = None \<Longrightarrow>
   obj \<in> set (mgmt_objects m) \<Longrightarrow> obj_APIVersion obj = gv \<Longrightarrow> obj_Kind obj = res_Kind r \<Longrightarrow>
   GroupVersionKind_String (obj_GroupVersionKind obj) \<notin> set excl \<Longrightarrow>
   MatchingLabels L obj \<Longrightarrow>
   (res_Namespaced r \<longrightarrow> (\<exists>ns \<in> set nss. InNamespace (Some ns) obj)) \<Longrightarrow>
   obj \<in> set items"
proof (induction rs arbitrary: items)
  case Nil
  then show ?case by simp
next
  case (Cons a rs)
  from Cons.prems(1) obtain i1 i2 where
    s: "list_resourceKind m L nss excl gv a = Inr i1"
       "list_resourceKinds m L nss excl gv rs = Inr i2" "items = i1 @ i2"
    by (auto split: sum.splits)
  show ?case
  proof (cases "r = a")
    case True
    then have "obj \<in> set i1"
      using list_resourceKind_complete [OF s(1)] Cons.prems by blast
    then show ?thesis by (simp add: s(3))
  next
    case False
    then have "r \<in> set rs" using Cons.prems(2) by simp
    then have "obj \<in> set i2"
      using Cons.IH [OF s(2)] Cons.prems by blast
    then show ?thesis by (simp add: s(3))
  qed
qed

lemma list_resourceGroups_sound:
  "list_resourceGroups m L nss excl gs = Inr items \<Longrightarrow> obj \<in> set items \<Longrightarrow>
   GroupVersionKind_String (obj_GroupVersionKind obj) \<notin> set excl"
proof (induction gs arbitrary: items)
  case Nil
  then show ?case by simp
next
  case (Cons g gs)
  then show ?case
    by (auto split: sum.splits dest: list_resourceKinds_sound)
qed

lemma list_resourceGroups_complete:
  "list_resourceGroups m L nss excl gs = Inr items \<Longrightarrow> g \<in> set gs \<Longrightarrow>
   r \<in> set (rl_APIResources g) \<Longrightarrow>
   \<not> is_extensions_alias (rl_GroupVersion g) r \<Longrightarrow>
   mgmt_list_faults m (rl_GroupVersion g, res_Kind r) = None \<Longrightarrow>
   obj \<in> set (mgmt_objects m) \<Longrightarrow> obj_APIVersion obj = rl_GroupVersion g \<Longrightarrow>
   obj_Kind obj = res_Kind r \<Longrightarrow>
   GroupVersionKind_String (obj_GroupVersionKind obj) \<notin> set excl \<Longrightarrow>
   MatchingLabels L obj \<Longrightarrow>
   (res_Namespaced r \<longrightarrow> (\<exists>ns \<in> set nss. InNamespace (Some ns) obj)) \<Longrightarrow>
   obj \<in> set items"
proof (induction gs arbitrary: items)
  case Nil
  then show ?case by simp
next
  case (Cons a gs)
  from Cons.prems(1) obtain i1 i2 where
    s: "list_resourceKinds m L nss excl (rl_GroupVersion a) (rl_APIResources a) = Inr i1"
       "list_resourceGroups m L nss excl gs = Inr i2" "items = i1 @ i2"
    by (auto split: sum.splits)
  show ?case
  proof (cases "g = a")
    case True
    then have "obj \<in> set i1"
      using list_resourceKinds_complete [OF s(1)] Cons.prems by blast
    then show ?thesis by (simp add: s(3))
  next
    case False
    then have "g \<in> set gs" using Cons.prems(2) by simp
    then have "obj \<in> set i2"
      using Cons.IH [OF s(2)] Cons.prems by blast
    then show ?thesis by (simp add: s(3))
  qed
qed

lemma exclusion_set_strings:
  "t \<in> exclusion_set L crds \<Longrightarrow> GroupVersionKind_String t \<in> set (crdsToExclude L crds)"
  unfolding exclusion_set_def crdsToExclude_def crd_is_excluded_def
    ClusterctlCoreLabelCertManagerValue_def
  by auto

lemma FilteredBy_mem:
  "g \<in> set gs \<Longrightarrow> r \<in> set (rl_APIResources g) \<Longrightarrow> p r \<Longrightarrow>
   g\<lparr>rl_APIResources := filter p (rl_APIResources g)\<rparr> \<in> set (FilteredBy p gs)
   \<and> r \<in> set (filter p (rl_APIResources g))"
  unfolding FilteredBy_def
  by (auto simp: filter_empty_conv)

lemma crdsToExclude_exclusion_set:
  "set (crdsToExclude L crds) = GroupVersionKind_String ` exclusion_set L crds"
  unfolding exclusion_set_def crdsToExclude_def crd_is_excluded_def
    ClusterctlCoreLabelCertManagerValue_def
  by (auto simp: image_iff)

lemma ListResources_sound_complete:
  "ListResources m labels namespaces = Inr ret \<and> mgmt_CRDs m = Inr crdList
   \<and> mgmt_ServerPreferredResources m = Inr resourceList \<longrightarrow>
   (\<forall>obj \<in> set ret. obj_GroupVersionKind obj \<notin> exclusion_set labels crdList)
   \<and> (\<forall>resourceGroup \<in> set resourceList.
       \<forall>resourceKind \<in> set (rl_APIResources resourceGroup).
       \<forall>obj \<in> set (mgmt_objects m).
         SupportsAllVerbs [''list'', ''delete''] resourceKind
         \<and> \<not> is_extensions_alias (rl_GroupVersion resourceGroup) resourceKind
         \<and> obj_APIVersion obj = rl_GroupVersion resourceGroup
         \<and> obj_Kind obj = res_Kind resourceKind
         \<and> GroupVersionKind_String (obj_GroupVersionKind obj)
              \<notin> GroupVersionKind_String ` exclusion_set labels crdList
         \<and> MatchingLabels labels obj
         \<and> (res_Namespaced resourceKind \<longrightarrow> (\<exists>ns \<in> set namespaces. InNamespace (Some ns) obj))
         \<and> mgmt_list_faults m (obj_APIVersion obj, obj_Kind obj) = None
         \<longrightarrow> obj \<in> set ret)"
proof (intro impI, elim conjE)
  assume a: "ListResources m labels namespaces = Inr ret" "mgmt_CRDs m = Inr crdList"
    "mgmt_ServerPreferredResources m = Inr resourceList"
  let ?excl = "crdsToExclude labels crdList"
  let ?p = "SupportsAllVerbs [''list'', ''delete'']"
  have run: "list_resourceGroups m labels namespaces ?excl (FilteredBy ?p resourceList) = Inr ret"
    using a unfolding ListResources_def
    by (auto split: option.splits sum.splits)
  have sound: "\<forall>obj \<in> set ret. obj_GroupVersionKind obj \<notin> exclusion_set labels crdList"
    using list_resourceGroups_sound [OF run] exclusion_set_strings by blast
  have complete: "obj \<in> set ret"
    if h: "g \<in> set resourceList" "r \<in> set (rl_APIResources g)" "obj \<in> set (mgmt_objects m)"
      "?p r" "\<not> is_extensions_alias (rl_GroupVersion g) r"
      "obj_APIVersion obj = rl_GroupVersion g" "obj_Kind obj = res_Kind r"
      "GroupVersionKind_String (obj_GroupVersionKind obj) \<notin> set ?excl"
      "MatchingLabels labels obj"
      "res_Namespaced r \<longrightarrow> (\<exists>ns \<in> set namespaces. InNamespace (Some ns) obj)"
      "mgmt_list_faults m (obj_APIVersion obj, obj_Kind obj) = None"
    for g r obj
  proof -
    let ?g = "g\<lparr>rl_APIResources := filter ?p (rl_APIResources g)\<rparr>"
    have m1: "?g \<in> set (FilteredBy ?p resourceList)" "r \<in> set (rl_APIResources ?g)"
      using FilteredBy_mem [of g resourceList r ?p] h(1) h(2) h(4) by simp_all
    show ?thesis
      using list_resourceGroups_complete [OF run m1(1) m1(2)] h by simp
  qed
  show "(\<forall>obj \<in> set ret. obj_GroupVersionKind obj \<notin> exclusion_set labels crdList)
   \<and> (\<forall>resourceGroup \<in> set resourceList.
       \<forall>resourceKind \<in> set (rl_APIResources resourceGroup).
       \<forall>obj \<in> set (mgmt_objects m).
         SupportsAllVerbs [''list'', ''delete''] resourceKind
         \<and> \<not> is_extensions_alias (rl_GroupVersion resourceGroup) resourceKind
         \<and> obj_APIVersion obj = rl_GroupVersion resourceGroup
         \<and> obj_Kind obj = res_Kind resourceKind
         \<and> GroupVersionKind_String (obj_GroupVersionKind obj)
              \<notin> GroupVersionKind_String ` exclusion_set labels crdList
         \<and> MatchingLabels labels obj
         \<and> (res_Namespaced resourceKind \<longrightarrow> (\<exists>ns \<in> set namespaces. InNamespace (Some ns) obj))
         \<and> mgmt_list_faults m (obj_APIVersion obj, obj_Kind obj) = None
         \<longrightarrow> obj \<in> set ret)"
    using sound complete unfolding crdsToExclude_exclusion_set [symmetric] by blast
qed

text \<open>
  C6. The strings that \<^verbatim>\<open>ListResources\<close> excludes are exactly those of the
  exclusion set, which holds every declared version of every CRD with a provider label
  and of every CRD when the selector maps the core label to cert-manager. When
  \<^verbatim>\<open>ListResources\<close> returns a list, no object of the list has its (group, version,
  kind) in the exclusion set; and every stored object that matches the selector is in
  the list when its kind is a discovered resource with the verbs list and delete, is
  not one of the discarded \<^verbatim>\<open>extensions/v1beta1\<close> kinds, does not print as a member
  of the exclusion set, is listed without fault and, if namespaced, lies in one of the
  namespaces asked for.
\<close>

theorem ListResources_excludes_CRD_kinds:
  "set (crdsToExclude labels crdList) = GroupVersionKind_String ` exclusion_set labels crdList
   \<and> (ListResources m labels namespaces = Inr ret \<and> mgmt_CRDs m = Inr crdList
   \<and> mgmt_ServerPreferredResources m = Inr resourceList \<longrightarrow>
   (\<forall>obj \<in> set ret. obj_GroupVersionKind obj \<notin> exclusion_set labels crdList)
   \<and> (\<forall>resourceGroup \<in> set resourceList.
       \<forall>resourceKind \<in> set (rl_APIResources resourceGroup).
       \<forall>obj \<in> set (mgmt_objects m).
         SupportsAllVerbs [''list'', ''delete''] resourceKind
         \<and> \<not> is_extensions_alias (rl_GroupVersion resourceGroup) resourceKind
         \<and> obj_APIVersion obj = rl_GroupVersion resourceGroup
         \<and> obj_Kind obj = res_Kind resourceKind
         \<and> GroupVersionKind_String (obj_GroupVersionKind obj)
              \<notin> GroupVersionKind_String ` exclusion_set labels crdList
         \<and> MatchingLabels labels obj
         \<and> (res_Namespaced resourceKind \<longrightarrow> (\<exists>ns \<in> set namespaces. InNamespace (Some ns) obj))
         \<and> mgmt_list_faults m (obj_APIVersion obj, obj_Kind obj) = None
         \<longrightarrow> obj \<in> set ret))"
  using crdsToExclude_exclusion_set [of labels crdList]
    ListResources_sound_complete [of m labels namespaces ret crdList resourceList]
  by (rule conjI)

lemmas enumerator_defs =
  ListResources_def FilteredBy_def SupportsAllVerbs_def crdsToExclude_def crd_is_excluded_def
  list_resourceKind_def is_extensions_alias_def listObjByGVK_def MatchingLabels_def
  InNamespace_def ParseGroupVersion_def GroupVersionKind_String_def obj_GroupVersionKind_def
  ClusterctlCoreLabelName_def ClusterctlCoreLabelCertManagerValue_def ProviderLabelName_def
  aws_management_def aws_resources_def aws_crd_def aws_selector_def aws_deployment_def
  aws_cluster_object_def all_verbs_def object_for_def exclusion_set_def

theorem ListResources_excludes_CRD_kinds_witness:
  "ListResources aws_management aws_selector [''default''] = Inr [aws_deployment]
   \<and> set (crdsToExclude aws_selector [aws_crd])
       = {''infrastructure.cluster.x-k8s.io/v1, Kind=AWSCluster'',
          ''infrastructure.cluster.x-k8s.io/v2, Kind=AWSCluster''}
   \<and> GroupVersionKind_String (obj_GroupVersionKind aws_deployment)
       \<notin> GroupVersionKind_String ` exclusion_set aws_selector [aws_crd]
   \<and> obj_GroupVersionKind aws_cluster_object \<in> exclusion_set aws_selector [aws_crd]
   \<and> obj_GroupVersionKind aws_deployment \<notin> exclusion_set aws_selector [aws_crd]
   \<and> aws_cluster_object \<in> set (mgmt_objects aws_management)
   \<and> MatchingLabels aws_selector aws_cluster_object
   \<and> aws_deployment \<in> set [aws_deployment]"
proof -
  have run: "ListResources aws_management aws_selector [''default''] = Inr [aws_deployment]"
    by (simp add: enumerator_defs)
  have excl: "set (crdsToExclude aws_selector [aws_crd])
       = {''infrastructure.cluster.x-k8s.io/v1, Kind=AWSCluster'',
          ''infrastructure.cluster.x-k8s.io/v2, Kind=AWSCluster''}"
    by (simp add: crdsToExclude_def crd_is_excluded_def aws_crd_def aws_selector_def
        GroupVersionKind_String_def ProviderLabelName_def ClusterctlCoreLabelName_def)
  note inst =
    ListResources_excludes_CRD_kinds
      [where labels = aws_selector and crdList = "[aws_crd]" and m = aws_management
         and namespaces = "[''default'']" and ret = "[aws_deployment]"
         and resourceList = aws_resources]
  have img: "GroupVersionKind_String ` exclusion_set aws_selector [aws_crd]
       = {''infrastructure.cluster.x-k8s.io/v1, Kind=AWSCluster'',
          ''infrastructure.cluster.x-k8s.io/v2, Kind=AWSCluster''}"
    using inst [THEN conjunct1] excl by simp
  have dep: "GroupVersionKind_String (obj_GroupVersionKind aws_deployment)
       \<notin> GroupVersionKind_String ` exclusion_set aws_selector [aws_crd]"
    unfolding img
    by (simp add: aws_deployment_def object_for_def obj_GroupVersionKind_def
        ParseGroupVersion_def GroupVersionKind_String_def)
  have sound: "\<forall>obj \<in> set [aws_deployment].
      obj_GroupVersionKind obj \<notin> exclusion_set aws_selector [aws_crd]"
    using inst [THEN conjunct2] run
    by (simp add: aws_management_def)
  show ?thesis
    using run excl dep sound
    by (simp add: enumerator_defs)
qed

end
